theory Spec2Isabelle
  imports Main "HOL-Library.Multiset"
begin

section \<open>Call-list construction (lib/batched-transactions.ts)\<close>

text \<open>
  The two versions of \<^verbatim>\<open>batched-transactions.ts\<close> in the repository declare the same
  \<^verbatim>\<open>TransactionStep\<close> and the same \<^verbatim>\<open>createTokenBurnSteps\<close>; the later one adds
  \<^verbatim>\<open>BatchCall\<close>, \<^verbatim>\<open>transactionStepsToBatchCalls\<close> and \<^verbatim>\<open>createTokenBurnBatchCalls\<close>.

  An argument of a contract call is an address or a \<^verbatim>\<open>bigint\<close> (an unbounded integer).
  The ABI value \<^verbatim>\<open>erc20Abi\<close> and the encoder \<^verbatim>\<open>encodeFunctionData\<close> come from the
  library viem, which is not code of this repository: the ABI is a value of a type
  parameter \<open>'abi\<close> and the encoder is a parameter \<open>encodeFunctionData\<close> of the functions
  that call it, taking the three fields of the object the source passes. The encoder
  checks the arguments against the ABI and throws when one does not fit its type: its
  result is \<open>None\<close> when it throws and the encoded bytes otherwise.
\<close>

datatype abi_arg = ArgAddress string | ArgBigInt int

record 'abi TransactionStep =
  name :: string
  contractAddress :: string
  abi :: 'abi
  functionName :: string
  args :: "abi_arg list"
  "value" :: "int option"

record BatchCall =
  to :: string
  data :: string
  "value" :: "int option"

text \<open>An element of the \<^verbatim>\<open>tokenTransfers\<close> array; \<^verbatim>\<open>tokenSymbol\<close> is optional.\<close>

record TokenTransfer =
  tokenAddress :: string
  amount :: int
  tokenSymbol :: "string option"

definition DEFAULT_BURN_ADDRESS :: string where
  "DEFAULT_BURN_ADDRESS = ''0x000000000000000000000000000000000000dEaD''"

text \<open>
  A parameter with a default value: \<open>None\<close> is the argument left out (or \<^verbatim>\<open>undefined\<close>).
\<close>

definition burnAddressOrDefault :: "string option \<Rightarrow> string" where
  "burnAddressOrDefault b = (case b of None \<Rightarrow> DEFAULT_BURN_ADDRESS | Some a \<Rightarrow> a)"

text \<open>The decimal numeral a template literal prints for a non-negative integer.\<close>

definition digit_char :: "nat \<Rightarrow> char" where
  "digit_char d = char_of (48 + d)"

function string_of_nat :: "nat \<Rightarrow> string" where
  "string_of_nat n =
     (if n < 10 then [digit_char n] else string_of_nat (n div 10) @ [digit_char (n mod 10)])"
  by pat_completeness auto
termination
  by (relation "measure id") auto

text \<open>\<^verbatim>\<open>transfer.tokenSymbol || 'token'\<close>: an absent or empty symbol is falsy.\<close>

definition symbolOrToken :: "string option \<Rightarrow> string" where
  "symbolOrToken s = (case s of None \<Rightarrow> ''token'' | Some t \<Rightarrow> if t = [] then ''token'' else t)"

definition burnStep :: "'abi \<Rightarrow> string \<Rightarrow> nat \<times> TokenTransfer \<Rightarrow> 'abi TransactionStep" where
  "burnStep erc20Abi burnAddress p =
     (case p of (index, transfer) \<Rightarrow>
       \<lparr> name = ''Burn '' @ symbolOrToken (tokenSymbol transfer) @ '' '' @ string_of_nat (index + 1),
         contractAddress = tokenAddress transfer,
         abi = erc20Abi,
         functionName = ''transfer'',
         args = [ArgAddress burnAddress, ArgBigInt (amount transfer)],
         value = None \<rparr>)"

definition createTokenBurnSteps ::
  "'abi \<Rightarrow> TokenTransfer list \<Rightarrow> string option \<Rightarrow> 'abi TransactionStep list" where
  "createTokenBurnSteps erc20Abi tokenTransfers burnAddress =
     map (burnStep erc20Abi (burnAddressOrDefault burnAddress)) (enumerate 0 tokenTransfers)"

text \<open>
  \<^verbatim>\<open>Array.prototype.map\<close> with a callback that may throw: the callback runs on the
  elements in order, and the first exception leaves the \<^verbatim>\<open>map\<close>, and the function that
  called it, without a result (\<open>None\<close>).
\<close>

fun map_throwing :: "('a \<Rightarrow> 'b option) \<Rightarrow> 'a list \<Rightarrow> 'b list option" where
  "map_throwing f [] = Some []"
| "map_throwing f (x # xs) =
     (case f x of
        None \<Rightarrow> None
      | Some y \<Rightarrow> (case map_throwing f xs of None \<Rightarrow> None | Some ys \<Rightarrow> Some (y # ys)))"

definition transactionStepsToBatchCalls ::
  "('abi \<Rightarrow> string \<Rightarrow> abi_arg list \<Rightarrow> string option) \<Rightarrow> 'abi TransactionStep list
     \<Rightarrow> BatchCall list option" where
  "transactionStepsToBatchCalls encodeFunctionData steps =
     map_throwing (\<lambda>step.
        case encodeFunctionData (abi step) (functionName step) (args step) of
          None \<Rightarrow> None
        | Some encoded \<Rightarrow>
            Some \<lparr> to = TransactionStep.contractAddress step,
                   data = encoded,
                   value = TransactionStep.value step \<rparr>) steps"

definition createTokenBurnBatchCalls ::
  "('abi \<Rightarrow> string \<Rightarrow> abi_arg list \<Rightarrow> string option) \<Rightarrow> 'abi \<Rightarrow> TokenTransfer list
     \<Rightarrow> string option \<Rightarrow> BatchCall list option" where
  "createTokenBurnBatchCalls encodeFunctionData erc20Abi tokenTransfers burnAddress =
     map_throwing (\<lambda>transfer.
        case encodeFunctionData erc20Abi ''transfer''
               [ArgAddress (burnAddressOrDefault burnAddress), ArgBigInt (amount transfer)] of
          None \<Rightarrow> None
        | Some encoded \<Rightarrow>
            Some \<lparr> to = tokenAddress transfer, data = encoded, value = None \<rparr>) tokenTransfers"


section \<open>Selection bookkeeping and the batch-burn component (components)\<close>

text \<open>
  Modelled from the spec: the declaration of \<^verbatim>\<open>Token\<close> in \<^verbatim>\<open>~/lib/types\<close> is not among
  the sources. The record has the fields of the spec's Token that \<^verbatim>\<open>route.ts\<close> writes
  when it builds one (\<^verbatim>\<open>{ contractAddress, symbol, name, balance, balanceFormatted } as Token\<close>);
  the server route and the batch-burn component both use this type.
\<close>

record Token =
  contractAddress :: string
  symbol :: string
  name :: string
  balance :: string
  balanceFormatted :: string

definition BURN_ADDRESS :: string where
  "BURN_ADDRESS = ''0x000000000000000000000000000000000000dEaD''"

text \<open>
  \<^verbatim>\<open>handleTokenSelect\<close> is the same in every variant of the component: it copies the
  selection set, adds or deletes the address, and stores the copy. The function below is
  the set it passes to \<^verbatim>\<open>setSelectedTokens\<close>, from the current set.
\<close>

definition handleTokenSelect :: "string set \<Rightarrow> string \<Rightarrow> bool \<Rightarrow> string set" where
  "handleTokenSelect selectedTokens address checked =
     (if checked then insert address selectedTokens
      else selectedTokens - {address})"

definition selectedTokensList :: "Token list \<Rightarrow> string set \<Rightarrow> Token list" where
  "selectedTokensList tokens selectedTokens =
     filter (\<lambda>token. Token.contractAddress token \<in> selectedTokens) tokens"

text \<open>
  The effect of the batch-burn component that runs when \<^verbatim>\<open>isCallsSuccess\<close> or
  \<^verbatim>\<open>callsStatus\<close> changes. \<open>status\<close> is \<^verbatim>\<open>callsStatus?.status\<close>, \<open>None\<close> when undefined.
\<close>

definition resetSelectedOnSuccess :: "bool \<Rightarrow> string option \<Rightarrow> string set \<Rightarrow> string set" where
  "resetSelectedOnSuccess isCallsSuccess status selectedTokens =
     (if isCallsSuccess \<and> status = Some ''success'' then {} else selectedTokens)"

text \<open>
  \<^verbatim>\<open>handleBurnTokens\<close> of the batch-burn component. The built-in \<^verbatim>\<open>BigInt(string)\<close> is
  the parameter \<open>BigInt\<close> (\<open>None\<close>: it throws a SyntaxError). The callback of the \<^verbatim>\<open>map\<close>
  over the selected tokens converts the balance and then encodes the call; the first
  token for which one of the two throws ends the \<^verbatim>\<open>map\<close>, and the \<^verbatim>\<open>catch\<close> stores
  \<^verbatim>\<open>Batched token burn failed:\<close> with the message of that exception. The result is what
  the handler does: nothing, a failure kept in \<^verbatim>\<open>error\<close> (here with the balance string
  that did not convert or did not encode), or the call list handed to \<^verbatim>\<open>sendCalls\<close>.
\<close>

datatype burn_failure = BalanceNotConverted string | CallNotEncoded string

datatype burn_submission = NotStarted | BurnFailed burn_failure | SentCalls "BatchCall list"

fun burnCalls ::
  "('abi \<Rightarrow> string \<Rightarrow> abi_arg list \<Rightarrow> string option) \<Rightarrow> 'abi \<Rightarrow> (string \<Rightarrow> int option)
     \<Rightarrow> Token list \<Rightarrow> burn_failure + BatchCall list" where
  "burnCalls encodeFunctionData erc20Abi BigInt [] = Inr []"
| "burnCalls encodeFunctionData erc20Abi BigInt (token # rest) =
     (case BigInt (Token.balance token) of
        None \<Rightarrow> Inl (BalanceNotConverted (Token.balance token))
      | Some amountRaw \<Rightarrow>
          (case encodeFunctionData erc20Abi ''transfer''
                  [ArgAddress BURN_ADDRESS, ArgBigInt amountRaw] of
             None \<Rightarrow> Inl (CallNotEncoded (Token.balance token))
           | Some encoded \<Rightarrow>
               (case burnCalls encodeFunctionData erc20Abi BigInt rest of
                  Inl failure \<Rightarrow> Inl failure
                | Inr calls \<Rightarrow>
                    Inr (\<lparr> to = Token.contractAddress token, data = encoded, value = None \<rparr>
                           # calls))))"

definition handleBurnTokens ::
  "('abi \<Rightarrow> string \<Rightarrow> abi_arg list \<Rightarrow> string option) \<Rightarrow> 'abi \<Rightarrow> (string \<Rightarrow> int option)
     \<Rightarrow> bool \<Rightarrow> Token list \<Rightarrow> string set \<Rightarrow> burn_submission" where
  "handleBurnTokens encodeFunctionData erc20Abi BigInt publicClient tokens selectedTokens =
     (if \<not> publicClient then NotStarted
      else if selectedTokensList tokens selectedTokens = [] then NotStarted
      else (case burnCalls encodeFunctionData erc20Abi BigInt
                   (selectedTokensList tokens selectedTokens) of
              Inl failure \<Rightarrow> BurnFailed failure
            | Inr calls \<Rightarrow> SentCalls calls))"

section \<open>Retry-wrapped fetch (route.ts and token-burner.tsx)\<close>

text \<open>
  The network is a parameter: \<open>fetch i\<close> is what the \<open>i\<close>-th call of \<^verbatim>\<open>fetch(url, options)\<close>
  inside one run of \<^verbatim>\<open>fetchWithRetry\<close> does (\<open>i\<close> is the loop variable). It rejects with a
  message, or resolves to a response with a status and a body. By the Fetch standard
  \<^verbatim>\<open>response.ok\<close> holds exactly for the statuses 200 to 299.
\<close>

record 'r Response =
  status :: nat
  body :: 'r

datatype 'r attempt = Rejected string | Resolved "'r Response"

definition ok :: "'r Response \<Rightarrow> bool" where
  "ok response = (200 \<le> status response \<and> status response \<le> 299)"

datatype error =
    NetworkError string
  | HttpError nat
  | MaxRetriesExceeded
  | JsonSyntaxError
  | ZapperApiError string
  | NoPortfolioData
  | AlchemyPortfolioApiError string
  | ApiError string

text \<open>
  What the helper does besides returning, in order: the calls of the optional
  \<^verbatim>\<open>onRetry\<close> callback with its two arguments, and the sleeps with their milliseconds.
\<close>

datatype retry_event = OnRetry nat int | Sleep nat

text \<open>The exception the \<^verbatim>\<open>catch\<close> clause receives when attempt \<open>i\<close> does not return.\<close>

fun attempt_error :: "'r attempt \<Rightarrow> error" where
  "attempt_error (Rejected message) = NetworkError message"
| "attempt_error (Resolved response) = HttpError (status response)"

fun attempt_ok :: "'r attempt \<Rightarrow> bool" where
  "attempt_ok (Rejected message) = False"
| "attempt_ok (Resolved response) = ok response"

text \<open>
  The \<^verbatim>\<open>for\<close> loop from the value \<open>i\<close> of its variable on. \<open>retries\<close> is an integer (the
  callers pass 3 or leave the default 3); \<open>onRetry\<close> says whether the callback is given.
  The version in \<^verbatim>\<open>route.ts\<close> has no callback: it is \<open>onRetry = False\<close>.
\<close>

function fetchWithRetry_from ::
  "(nat \<Rightarrow> 'r attempt) \<Rightarrow> int \<Rightarrow> bool \<Rightarrow> nat \<Rightarrow> (error + 'r Response) \<times> retry_event list" where
  "fetchWithRetry_from fetch retries onRetry i =
     (if int i < retries then
        (case fetch i of
           Resolved response \<Rightarrow>
             if ok response then (Inr response, [])
             else if int i = retries - 1 then (Inl (HttpError (status response)), [])
             else (case fetchWithRetry_from fetch retries onRetry (i + 1) of
                     (result, events) \<Rightarrow>
                       (result,
                        (if onRetry then [OnRetry (i + 1) retries] else [])
                          @ Sleep (2 ^ i * 1000) # events))
         | Rejected message \<Rightarrow>
             if int i = retries - 1 then (Inl (NetworkError message), [])
             else (case fetchWithRetry_from fetch retries onRetry (i + 1) of
                     (result, events) \<Rightarrow>
                       (result,
                        (if onRetry then [OnRetry (i + 1) retries] else [])
                          @ Sleep (2 ^ i * 1000) # events)))
      else (Inl MaxRetriesExceeded, []))"
  by pat_completeness auto
termination
  by (relation "measure (\<lambda>(fetch, retries, onRetry, i). nat (retries - int i))") auto

declare fetchWithRetry_from.simps [simp del]

definition fetchWithRetry ::
  "(nat \<Rightarrow> 'r attempt) \<Rightarrow> int \<Rightarrow> bool \<Rightarrow> (error + 'r Response) \<times> retry_event list" where
  "fetchWithRetry fetch retries onRetry = fetchWithRetry_from fetch retries onRetry 0"

definition DEFAULT_RETRIES :: int where
  "DEFAULT_RETRIES = 3"

text \<open>The milliseconds of the sleeps of a run, in order, and their sum.\<close>

fun sleeps :: "retry_event list \<Rightarrow> nat list" where
  "sleeps [] = []"
| "sleeps (Sleep ms # events) = ms # sleeps events"
| "sleeps (OnRetry n m # events) = sleeps events"

definition total_sleep :: "retry_event list \<Rightarrow> nat" where
  "total_sleep events = sum_list (sleeps events)"


section \<open>Built-ins of the language that the sources call\<close>

text \<open>
  Strings are lists of 8-bit characters, so the models below are those of the built-ins
  on ASCII strings (addresses, hexadecimal and decimal numerals, ticker symbols).
\<close>

text \<open>
  In a condition a string is falsy exactly when it is empty, and an absent one
  (\<^verbatim>\<open>undefined\<close>) is falsy too.
\<close>

definition truthy :: "string option \<Rightarrow> bool" where
  "truthy s = (case s of None \<Rightarrow> False | Some t \<Rightarrow> t \<noteq> [])"

definition or_else :: "string \<Rightarrow> string \<Rightarrow> string" where
  "or_else s d = (if s = [] then d else s)"

definition is_space :: "char \<Rightarrow> bool" where
  "is_space c = (c \<in> set [char_of (9::nat), char_of (10::nat), char_of (11::nat),
                           char_of (12::nat), char_of (13::nat), CHR '' ''])"

definition hex_digit :: "char \<Rightarrow> nat option" where
  "hex_digit c =
     (let n = (of_char c :: nat) in
      if 48 \<le> n \<and> n \<le> 57 then Some (n - 48)
      else if 97 \<le> n \<and> n \<le> 102 then Some (n - 87)
      else if 65 \<le> n \<and> n \<le> 70 then Some (n - 55)
      else None)"

definition hex_value :: "string \<Rightarrow> nat" where
  "hex_value z = foldl (\<lambda>acc c. 16 * acc + (case hex_digit c of None \<Rightarrow> 0 | Some d \<Rightarrow> d)) 0 z"

text \<open>
  \<^verbatim>\<open>parseInt(s, 16)\<close> by the steps of the language standard: leading white space is
  dropped, then a sign, then a prefix \<^verbatim>\<open>0x\<close> or \<^verbatim>\<open>0X\<close>; the longest run of hexadecimal
  digits that follows is the numeral, and there is no number (NaN, here \<open>None\<close>) when that
  run is empty. The standard rounds the integer to a double; rounding keeps the sign and
  keeps zero, which is all that the comparison with 0 in the sources reads.
\<close>

definition parseInt16 :: "string \<Rightarrow> int option" where
  "parseInt16 s =
     (let s1 = dropWhile is_space s;
          sign = (if s1 \<noteq> [] \<and> hd s1 = CHR ''-'' then - 1 else 1 :: int);
          s2 = (if s1 \<noteq> [] \<and> (hd s1 = CHR ''+'' \<or> hd s1 = CHR ''-'') then tl s1 else s1);
          s3 = (if take 2 s2 = ''0x'' \<or> take 2 s2 = ''0X'' then drop 2 s2 else s2);
          z = takeWhile (\<lambda>c. hex_digit c \<noteq> None) s3
      in if z = [] then None else Some (sign * int (hex_value z)))"

text \<open>\<^verbatim>\<open>parseInt(s, 16) > 0\<close>; a comparison with NaN is false.\<close>

definition parseInt16_positive :: "string \<Rightarrow> bool" where
  "parseInt16_positive s = (case parseInt16 s of None \<Rightarrow> False | Some n \<Rightarrow> 0 < n)"

text \<open>
  \<^verbatim>\<open>Number(s) > 0\<close>. On a non-empty string of decimal digits \<^verbatim>\<open>Number\<close> is the double
  next to the integer the digits write, which is positive exactly when some digit is not
  0. Every other string goes through the floating-point grammar of the language (fractions,
  exponents, underflow to zero), which is not modelled: there the answer is the parameter
  \<open>floatPositive\<close>.
\<close>

definition is_dec_digit :: "char \<Rightarrow> bool" where
  "is_dec_digit c = (48 \<le> (of_char c :: nat) \<and> (of_char c :: nat) \<le> 57)"

definition Number_positive :: "(string \<Rightarrow> bool) \<Rightarrow> string \<Rightarrow> bool" where
  "Number_positive floatPositive s =
     (if s \<noteq> [] \<and> list_all is_dec_digit s then list_ex (\<lambda>c. c \<noteq> CHR ''0'') s
      else floatPositive s)"

text \<open>\<^verbatim>\<open>toLowerCase\<close> on ASCII.\<close>

definition lower_char :: "char \<Rightarrow> char" where
  "lower_char c =
     (if 65 \<le> (of_char c :: nat) \<and> (of_char c :: nat) \<le> 90 then char_of ((of_char c :: nat) + 32)
      else c)"

definition toLowerCase :: "string \<Rightarrow> string" where
  "toLowerCase s = map lower_char s"

text \<open>
  \<^verbatim>\<open>String.prototype.localeCompare\<close> is a built-in of the host: it compares two strings
  by the collation of the host's locale, that is, by the sort keys that the collation
  gives them. The collation is a parameter, the function \<open>collationKey\<close> from a string to
  its sort key (a list of weights); \<open>localeCompare\<close> is negative, zero or positive as the
  key of the receiver is before, equal to or after the key of the argument in the
  lexicographic order of the weights.
\<close>

fun lex_compare :: "nat list \<Rightarrow> nat list \<Rightarrow> int" where
  "lex_compare [] [] = 0"
| "lex_compare [] (y # ys) = - 1"
| "lex_compare (x # xs) [] = 1"
| "lex_compare (x # xs) (y # ys) =
     (if x < y then - 1 else if y < x then 1 else lex_compare xs ys)"

definition localeCompare :: "(string \<Rightarrow> nat list) \<Rightarrow> string \<Rightarrow> string \<Rightarrow> int" where
  "localeCompare collationKey a b = lex_compare (collationKey a) (collationKey b)"

text \<open>
  One collation, for the examples: the root collation of Unicode on ASCII strings, which
  a host gives when its locale has no tailoring for them. Its first level orders the
  space, the punctuation and symbols in the order of \<open>collationSymbols\<close>, the digits and
  then the letters without regard to case; its last level breaks the ties between strings
  that differ in case only, lower case first. The key is the weights of the first level,
  a zero, and the weights of the last level. Bytes outside ASCII and control characters
  are put behind the letters in the order of their codes.
\<close>

definition collationSymbols :: "char list" where
  "collationSymbols =
     [CHR '' '', CHR ''_'', CHR ''-'', CHR '','', CHR '';'', CHR '':'', CHR ''!'', CHR ''?'',
      CHR ''.'', CHR 0x27, CHR 0x22, CHR ''('', CHR '')'', CHR ''['', CHR '']'', CHR ''{'',
      CHR ''}'', CHR ''@'', CHR ''*'', CHR ''/'', CHR 0x5C, CHR ''&'', CHR ''#'', CHR ''%'',
      CHR 0x60, CHR ''^'', CHR ''+'', CHR ''<'', CHR ''='', CHR ''>'', CHR ''|'', CHR ''~'',
      CHR ''$'']"

fun position :: "'a \<Rightarrow> 'a list \<Rightarrow> nat option" where
  "position c [] = None"
| "position c (d # ds) =
     (if c = d then Some 0 else (case position c ds of None \<Rightarrow> None | Some n \<Rightarrow> Some (n + 1)))"

definition primaryWeight :: "char \<Rightarrow> nat" where
  "primaryWeight c =
     (case position c collationSymbols of
        Some n \<Rightarrow> n + 1
      | None \<Rightarrow>
          (let u = (of_char c :: nat); l = (of_char (lower_char c) :: nat) in
           if 48 \<le> u \<and> u \<le> 57 then 50 + (u - 48)
           else if 97 \<le> l \<and> l \<le> 122 then 100 + (l - 97)
           else 200 + u))"

definition caseWeight :: "char \<Rightarrow> nat" where
  "caseWeight c = (if 65 \<le> (of_char c :: nat) \<and> (of_char c :: nat) \<le> 90 then 1 else 0)"

definition rootCollationKey :: "string \<Rightarrow> nat list" where
  "rootCollationKey s = map primaryWeight s @ [0] @ map caseWeight s"

text \<open>
  The comparison that the specification words, to compare \<open>localeCompare\<close> with: the
  case-insensitive lexicographic comparison of two strings, that is, the lexicographic
  comparison of the codes of the characters of the two lower-cased strings.
\<close>

definition caseInsensitiveCompare_spec :: "string \<Rightarrow> string \<Rightarrow> int" where
  "caseInsensitiveCompare_spec a b =
     lex_compare (map of_char (toLowerCase a)) (map of_char (toLowerCase b))"

text \<open>
  One encoder, for the examples: what viem's \<^verbatim>\<open>encodeFunctionData\<close> checks before it
  encodes a call of the ERC20 function \<^verbatim>\<open>transfer(address, uint256)\<close>. It throws when
  the first argument is not \<^verbatim>\<open>0x\<close> and 40 hexadecimal digits, or when the second is not
  in the range of a \<^verbatim>\<open>uint256\<close>, 0 to \<open>2 ^ 256 - 1\<close>. (viem also tests the checksum of an
  address written in mixed case; this encoder accepts every address of the right shape.)
  The bytes it returns are the parameter \<open>encodeBytes\<close>.
\<close>

definition isAddressShape :: "string \<Rightarrow> bool" where
  "isAddressShape a =
     (take 2 a = ''0x'' \<and> length a = 42 \<and> list_all (\<lambda>c. hex_digit c \<noteq> None) (drop 2 a))"

definition transferEncoder ::
  "(string \<Rightarrow> int \<Rightarrow> string) \<Rightarrow> 'abi \<Rightarrow> string \<Rightarrow> abi_arg list \<Rightarrow> string option" where
  "transferEncoder encodeBytes erc20Abi fn arguments =
     (case arguments of
        [ArgAddress recipient, ArgBigInt n] \<Rightarrow>
          if isAddressShape recipient \<and> 0 \<le> n \<and> n < 2 ^ 256
          then Some (encodeBytes recipient n) else None
      | _ \<Rightarrow> None)"

text \<open>
  \<^verbatim>\<open>Array.prototype.sort\<close> with a comparator. The standard makes the sort stable, so for a
  comparator that is a consistent order the result is the one stably sorted permutation,
  whatever algorithm the engine runs; inserting the elements from the right, each before
  the first element it does not come after, computes that permutation.
\<close>

fun insert_sorted :: "('a \<Rightarrow> 'a \<Rightarrow> int) \<Rightarrow> 'a \<Rightarrow> 'a list \<Rightarrow> 'a list" where
  "insert_sorted compare x [] = [x]"
| "insert_sorted compare x (y # ys) =
     (if compare x y \<le> 0 then x # y # ys else y # insert_sorted compare x ys)"

definition array_sort :: "('a \<Rightarrow> 'a \<Rightarrow> int) \<Rightarrow> 'a list \<Rightarrow> 'a list" where
  "array_sort compare xs = foldr (insert_sorted compare) xs []"


section \<open>Server aggregation route (app/api/tokens/[address]/route.ts)\<close>

text \<open>
  Each fetcher of the route runs at most once in a request, so the network it sees is a
  parameter of the fetcher: the outcome of each call of \<^verbatim>\<open>fetch\<close> it makes, in order.
  The address and the API key only shape the request that is sent, and the outcome is
  any function of it. The body of a response is \<open>None\<close> when \<^verbatim>\<open>response.json()\<close> throws,
  otherwise the fields of the parsed JSON that the fetcher reads.
\<close>

subsection \<open>Provider A: Zapper\<close>

text \<open>
  The fields of \<^verbatim>\<open>ZapperToken\<close> that are read (\<^verbatim>\<open>price\<close> and \<^verbatim>\<open>decimals\<close> are not).
\<close>

record ZapperToken =
  symbol :: string
  tokenAddress :: string
  balance :: string
  balanceRaw :: string
  name :: string

text \<open>
  \<open>errors\<close>: \<^verbatim>\<open>data.errors\<close>, the messages of the array when it is there (an empty message
  stands for a missing one, both are falsy). \<open>portfolioV2\<close>: \<^verbatim>\<open>data.data?.portfolioV2\<close>,
  and in it \<^verbatim>\<open>tokenBalances?.byToken?.edges\<close> as the list of the nodes of the edges.
\<close>

record ZapperData =
  errors :: "string list option"
  portfolioV2 :: "ZapperToken list option option"

definition zapperErrorMessage :: "string list \<Rightarrow> string" where
  "zapperErrorMessage es = (case es of [] \<Rightarrow> ''Unknown error'' | m # rest \<Rightarrow> or_else m ''Unknown error'')"

definition zapperProcess :: "(string \<Rightarrow> bool) \<Rightarrow> ZapperToken \<Rightarrow> Token option" where
  "zapperProcess floatPositive token =
     (if Number_positive floatPositive (ZapperToken.balance token)
         \<or> Number_positive floatPositive (balanceRaw token)
      then Some \<lparr> contractAddress = ZapperToken.tokenAddress token,
                  symbol = or_else (ZapperToken.symbol token) ''UNKNOWN'',
                  name = or_else (ZapperToken.name token) ''Unknown Token'',
                  balance = balanceRaw token,
                  balanceFormatted = ZapperToken.balance token \<rparr>
      else None)"

text \<open>\<^verbatim>\<open>.filter(Boolean)\<close> on an array of objects and nulls.\<close>

definition filter_Boolean :: "'a option list \<Rightarrow> 'a list" where
  "filter_Boolean xs = map the (filter (\<lambda>x. x \<noteq> None) xs)"

definition fetchZapperTokens ::
  "(string \<Rightarrow> bool) \<Rightarrow> (nat \<Rightarrow> ZapperData option attempt) \<Rightarrow> error + Token list" where
  "fetchZapperTokens floatPositive fetch =
     (case fst (fetchWithRetry fetch DEFAULT_RETRIES False) of
        Inl e \<Rightarrow> Inl e
      | Inr response \<Rightarrow>
          (case body response of
             None \<Rightarrow> Inl JsonSyntaxError
           | Some json \<Rightarrow>
               (case errors json of
                  Some es \<Rightarrow> Inl (ZapperApiError (zapperErrorMessage es))
                | None \<Rightarrow>
                    (case portfolioV2 json of
                       None \<Rightarrow> Inl NoPortfolioData
                     | Some None \<Rightarrow> Inr []
                     | Some (Some edges) \<Rightarrow>
                         Inr (filter_Boolean (map (zapperProcess floatPositive) edges))))))"

subsection \<open>Provider B: Alchemy Portfolio\<close>

text \<open>
  \<open>decimals\<close> is \<open>None\<close> when the provider sends \<^verbatim>\<open>null\<close>, which the filter tests for;
  \<open>tokenMetadata\<close> is \<open>None\<close> when the token has none (\<^verbatim>\<open>?.\<close> then gives \<^verbatim>\<open>undefined\<close>).
  The fields \<^verbatim>\<open>address\<close>, \<^verbatim>\<open>network\<close>, \<^verbatim>\<open>logo\<close> and \<^verbatim>\<open>tokenPrices\<close> are not read.
\<close>

record AlchemyMetadata =
  decimals :: "int option"
  name :: string
  symbol :: string

record AlchemyPortfolioToken =
  tokenAddress :: string
  tokenBalance :: string
  tokenMetadata :: "AlchemyMetadata option"

text \<open>
  One page: \<^verbatim>\<open>data.error\<close> with its message, \<^verbatim>\<open>data.data?.tokens || []\<close> and
  \<^verbatim>\<open>data.data?.pageKey\<close>.
\<close>

record AlchemyPage =
  error :: "string option"
  tokens :: "AlchemyPortfolioToken list"
  pageKey :: "string option"

definition maxPages :: nat where
  "maxPages = 10"

text \<open>
  The \<^verbatim>\<open>do ... while (pageKey)\<close> loop from a value of \<^verbatim>\<open>pageCount\<close> and of \<^verbatim>\<open>allTokens\<close>
  on; \<open>fetch p\<close> is the network for the request of page \<open>p\<close>.
\<close>

function fetchAlchemyPages ::
  "(nat \<Rightarrow> nat \<Rightarrow> AlchemyPage option attempt) \<Rightarrow> nat \<Rightarrow> AlchemyPortfolioToken list
     \<Rightarrow> error + AlchemyPortfolioToken list" where
  "fetchAlchemyPages fetch pageCount allTokens =
     (case fst (fetchWithRetry (fetch pageCount) DEFAULT_RETRIES False) of
        Inl e \<Rightarrow> Inl e
      | Inr response \<Rightarrow>
          (case body response of
             None \<Rightarrow> Inl JsonSyntaxError
           | Some json \<Rightarrow>
               (case error json of
                  Some message \<Rightarrow> Inl (AlchemyPortfolioApiError message)
                | None \<Rightarrow>
                    if pageCount + 1 \<ge> maxPages then Inr (allTokens @ tokens json)
                    else if truthy (pageKey json)
                      then fetchAlchemyPages fetch (pageCount + 1) (allTokens @ tokens json)
                      else Inr (allTokens @ tokens json))))"
  by pat_completeness auto
termination
  by (relation "measure (\<lambda>(fetch, pageCount, allTokens). maxPages - pageCount)") auto

declare fetchAlchemyPages.simps [simp del]

definition alchemyKeep :: "AlchemyPortfolioToken \<Rightarrow> bool" where
  "alchemyKeep token =
     (parseInt16_positive (tokenBalance token)
      \<and> AlchemyPortfolioToken.tokenAddress token \<noteq> []
      \<and> (case tokenMetadata token of None \<Rightarrow> True | Some m \<Rightarrow> decimals m \<noteq> None))"

text \<open>
  \<^verbatim>\<open>balanceFormatted\<close> is a floating-point quotient printed as a string; it is the
  parameter \<open>formatBalance\<close>, of the balance string and of \<^verbatim>\<open>decimals ?? 18\<close>.
\<close>

definition alchemyDecimals :: "AlchemyPortfolioToken \<Rightarrow> int" where
  "alchemyDecimals token =
     (case tokenMetadata token of
        None \<Rightarrow> 18
      | Some m \<Rightarrow> (case decimals m of None \<Rightarrow> 18 | Some d \<Rightarrow> d))"

definition alchemyProcess :: "(string \<Rightarrow> int \<Rightarrow> string) \<Rightarrow> AlchemyPortfolioToken \<Rightarrow> Token" where
  "alchemyProcess formatBalance token =
     \<lparr> contractAddress = AlchemyPortfolioToken.tokenAddress token,
       symbol = (case tokenMetadata token of
                   None \<Rightarrow> ''UNKNOWN'' | Some m \<Rightarrow> or_else (AlchemyMetadata.symbol m) ''UNKNOWN''),
       name = (case tokenMetadata token of
                 None \<Rightarrow> ''Unknown Token'' | Some m \<Rightarrow> or_else (AlchemyMetadata.name m) ''Unknown Token''),
       balance = tokenBalance token,
       balanceFormatted = formatBalance (tokenBalance token) (alchemyDecimals token) \<rparr>"

definition fetchAlchemyPortfolioTokens ::
  "(string \<Rightarrow> int \<Rightarrow> string) \<Rightarrow> (nat \<Rightarrow> nat \<Rightarrow> AlchemyPage option attempt) \<Rightarrow> error + Token list" where
  "fetchAlchemyPortfolioTokens formatBalance fetch =
     (case fetchAlchemyPages fetch 0 [] of
        Inl e \<Rightarrow> Inl e
      | Inr allTokens \<Rightarrow> Inr (map (alchemyProcess formatBalance) (filter alchemyKeep allTokens)))"

subsection \<open>The handler\<close>

datatype provider = Zapper | AlchemyPortfolio

datatype api_response =
    ErrorResponse string nat
  | TokensResponse "Token list" string

definition sortBySymbol :: "(string \<Rightarrow> nat list) \<Rightarrow> Token list \<Rightarrow> Token list" where
  "sortBySymbol collationKey allTokens =
     array_sort (\<lambda>a b. localeCompare collationKey (Token.symbol a) (Token.symbol b)) allTokens"

text \<open>
  \<open>collationKey\<close> is the collation of the host, for the sort by symbol. The environment
  is the three variables the handler reads, \<open>None\<close> when unset. The result
  is the response together with the providers whose fetcher the handler called, in order.
  Every statement that can throw is inside one of the two inner \<^verbatim>\<open>try\<close> blocks, whose
  \<^verbatim>\<open>catch\<close> only logs, so the outer \<^verbatim>\<open>catch\<close> is never entered. \<open>GET_alchemy\<close> is the handler
  from step 2 on, with the value of \<^verbatim>\<open>allTokens\<close> and the calls made so far.
\<close>

definition GET_alchemy ::
  "(string \<Rightarrow> nat list) \<Rightarrow> (string \<Rightarrow> int \<Rightarrow> string) \<Rightarrow> (nat \<Rightarrow> nat \<Rightarrow> AlchemyPage option attempt) \<Rightarrow> string option
     \<Rightarrow> string option \<Rightarrow> Token list \<Rightarrow> provider list \<Rightarrow> api_response \<times> provider list" where
  "GET_alchemy collationKey formatBalance fetchAlchemy zapperApiKey alchemyApiKey allTokens
       called =
     (let step3 = (\<lambda>allTokens called.
            if \<not> truthy zapperApiKey \<and> \<not> truthy alchemyApiKey
            then (ErrorResponse
                    ''No API keys configured. Please set ZAPPER_API_KEY or ALCHEMY_API_KEY'' 500,
                  called)
            else (TokensResponse (sortBySymbol collationKey allTokens) ''none'', called))
      in if truthy alchemyApiKey then
           (case fetchAlchemyPortfolioTokens formatBalance fetchAlchemy of
              Inr alchemyTokens \<Rightarrow>
                if length alchemyTokens > 0
                then (TokensResponse (sortBySymbol collationKey alchemyTokens) ''alchemy-portfolio'',
                      called @ [AlchemyPortfolio])
                else step3 alchemyTokens (called @ [AlchemyPortfolio])
            | Inl alchemyError \<Rightarrow> step3 allTokens (called @ [AlchemyPortfolio]))
         else step3 allTokens called)"

definition GET ::
  "(string \<Rightarrow> nat list) \<Rightarrow> (string \<Rightarrow> bool) \<Rightarrow> (string \<Rightarrow> int \<Rightarrow> string) \<Rightarrow> (nat \<Rightarrow> ZapperData option attempt)
     \<Rightarrow> (nat \<Rightarrow> nat \<Rightarrow> AlchemyPage option attempt) \<Rightarrow> string
     \<Rightarrow> string option \<Rightarrow> string option \<Rightarrow> string option \<Rightarrow> api_response \<times> provider list" where
  "GET collationKey floatPositive formatBalance fetchZapper fetchAlchemy address
       ZAPPER_API_KEY ALCHEMY_API_KEY NEXT_PUBLIC_ALCHEMY_API_KEY =
     (let zapperApiKey = ZAPPER_API_KEY;
          alchemyApiKey = (if truthy ALCHEMY_API_KEY then ALCHEMY_API_KEY
                           else NEXT_PUBLIC_ALCHEMY_API_KEY)
      in if address = [] then (ErrorResponse ''Address is required'' 400, [])
         else if truthy zapperApiKey then
           (case fetchZapperTokens floatPositive fetchZapper of
              Inr zapperTokens \<Rightarrow>
                if length zapperTokens > 0
                then (TokensResponse (sortBySymbol collationKey zapperTokens) ''zapper'', [Zapper])
                else GET_alchemy collationKey formatBalance fetchAlchemy zapperApiKey alchemyApiKey
                       zapperTokens [Zapper]
            | Inl zapperError \<Rightarrow>
                GET_alchemy collationKey formatBalance fetchAlchemy zapperApiKey alchemyApiKey []
                  [Zapper])
         else GET_alchemy collationKey formatBalance fetchAlchemy zapperApiKey alchemyApiKey [] [])"


section \<open>Client direct-fetch variant (components/token-burner.tsx)\<close>

text \<open>
  This component declares its own \<^verbatim>\<open>Token\<close>, here \<open>BurnerToken\<close>; \<^verbatim>\<open>logo\<close> and
  \<^verbatim>\<open>isPriority\<close> are optional.
\<close>

record BurnerToken =
  contractAddress :: string
  name :: string
  symbol :: string
  balance :: string
  decimals :: int
  logo :: "string option"
  isPriority :: "bool option"

record TokenCache =
  symbol :: string
  name :: string
  decimals :: int

definition BASE_PRIORITY_TOKENS :: "string list" where
  "BASE_PRIORITY_TOKENS = map toLowerCase
     [''0x833589fCD6eDb6E08f4c7C32D4f71b54bdA02913'',
      ''0x4ed4E862860beD51a9570b96d89aF5E1B0Efefed'',
      ''0x4200000000000000000000000000000000000006'',
      ''0x1111111111166b7fe7bd91427724b487980afc69'',
      ''0x44ff8620b8ca30902395a7bd3f2407e1a091bf73'',
      ''0x58d97b57bb95320f9a05dc918aef65434969c2b2'',
      ''0x1abaea1f7c830bd89acc67ec4af516284b1bc33c'',
      ''0x40d16fc0246ad3160ccc09b8d0d3a2cd28ae6c2f'',
      ''0x2Ae3F1Ec7F1F5012CFEab0185bfc7aa3cf0DEc22'',
      ''0x50c5725949A6F0c72E6C4a641F24049A917DB0Cb'']"

definition TOKEN_METADATA_CACHE :: "(string \<times> TokenCache) list" where
  "TOKEN_METADATA_CACHE =
     [(''0x833589fcd6edb6e08f4c7c32d4f71b54bda02913'',
         \<lparr>symbol = ''USDC'', name = ''USD Coin'', decimals = 6\<rparr>),
      (''0x4ed4e862860bed51a9570b96d89af5e1b0efefed'',
         \<lparr>symbol = ''DEGEN'', name = ''Degen'', decimals = 18\<rparr>),
      (''0x4200000000000000000000000000000000000006'',
         \<lparr>symbol = ''WETH'', name = ''Wrapped Ether'', decimals = 18\<rparr>),
      (''0x1111111111166b7fe7bd91427724b487980afc69'',
         \<lparr>symbol = ''ZORA'', name = ''Zora'', decimals = 18\<rparr>),
      (''0x44ff8620b8ca30902395a7bd3f2407e1a091bf73'',
         \<lparr>symbol = ''VIRTUAL'', name = ''Virtuals Protocol'', decimals = 18\<rparr>),
      (''0x58d97b57bb95320f9a05dc918aef65434969c2b2'',
         \<lparr>symbol = ''MORPHO'', name = ''Morpho Token'', decimals = 18\<rparr>),
      (''0x1abaea1f7c830bd89acc67ec4af516284b1bc33c'',
         \<lparr>symbol = ''EURC'', name = ''Euro Coin'', decimals = 6\<rparr>),
      (''0x40d16fc0246ad3160ccc09b8d0d3a2cd28ae6c2f'',
         \<lparr>symbol = ''GHO'', name = ''GHO Token'', decimals = 18\<rparr>),
      (''0x2ae3f1ec7f1f5012cfeab0185bfc7aa3cf0dec22'',
         \<lparr>symbol = ''cbETH'', name = ''Coinbase Wrapped ETH'', decimals = 18\<rparr>),
      (''0x50c5725949a6f0c72e6c4a641f24049a917db0cb'',
         \<lparr>symbol = ''DAI'', name = ''Dai Stablecoin'', decimals = 18\<rparr>)]"

text \<open>
  The \<^verbatim>\<open>result\<close> of \<^verbatim>\<open>alchemy_getTokenMetadata\<close>; \<open>decimals\<close> is \<open>None\<close> for \<^verbatim>\<open>null\<close>.
\<close>

record TokenMetadata =
  name :: string
  symbol :: string
  decimals :: "int option"
  logo :: "string option"

text \<open>\<^verbatim>\<open>metadata.decimals || 18\<close>: \<^verbatim>\<open>null\<close> and 0 are falsy.\<close>

definition decimalsOr18 :: "int option \<Rightarrow> int" where
  "decimalsOr18 d = (case d of None \<Rightarrow> 18 | Some n \<Rightarrow> if n = 0 then 18 else n)"

text \<open>
  \<open>fetch\<close> is the network for the one metadata request; its body is \<open>None\<close> when the JSON
  does not parse, else \<^verbatim>\<open>metadataData.result\<close>. The \<^verbatim>\<open>catch\<close> logs every exception and the
  function then returns \<^verbatim>\<open>null\<close>.
\<close>

definition fetchTokenMetadata ::
  "(nat \<Rightarrow> TokenMetadata option option attempt) \<Rightarrow> string \<Rightarrow> BurnerToken option" where
  "fetchTokenMetadata fetch address =
     (let lowerAddress = toLowerCase address in
      case map_of TOKEN_METADATA_CACHE lowerAddress of
        Some cachedMetadata \<Rightarrow>
          Some \<lparr> contractAddress = address,
                 name = TokenCache.name cachedMetadata,
                 symbol = TokenCache.symbol cachedMetadata,
                 balance = ''0'',
                 decimals = TokenCache.decimals cachedMetadata,
                 logo = None,
                 isPriority = Some (lowerAddress \<in> set BASE_PRIORITY_TOKENS) \<rparr>
      | None \<Rightarrow>
          (case fst (fetchWithRetry fetch 3 True) of
             Inl e \<Rightarrow> None
           | Inr response \<Rightarrow>
               (case body response of
                  None \<Rightarrow> None
                | Some None \<Rightarrow> None
                | Some (Some metadata) \<Rightarrow>
                    Some \<lparr> contractAddress = address,
                           name = or_else (TokenMetadata.name metadata) ''Unknown Token'',
                           symbol = or_else (TokenMetadata.symbol metadata) ''UNKNOWN'',
                           balance = ''0'',
                           decimals = decimalsOr18 (TokenMetadata.decimals metadata),
                           logo = TokenMetadata.logo metadata,
                           isPriority = Some (lowerAddress \<in> set BASE_PRIORITY_TOKENS) \<rparr>)))"

text \<open>An entry of \<^verbatim>\<open>data.result.tokenBalances\<close>.\<close>

record TokenBalance =
  contractAddress :: string
  tokenBalance :: string

text \<open>
  The answer of \<^verbatim>\<open>alchemy_getTokenBalances\<close>: \<^verbatim>\<open>data.error\<close> with its message and
  \<^verbatim>\<open>data.result?.tokenBalances || []\<close>.
\<close>

record BalancesData =
  error :: "string option"
  tokenBalances :: "TokenBalance list"

text \<open>
  The \<^verbatim>\<open>for ... of\<close> loop over \<^verbatim>\<open>tokensWithBalance\<close>; \<open>fetchMetadata k\<close> is the network
  for the metadata request of the \<open>k\<close>-th token of the list.
\<close>

fun withMetadata ::
  "(nat \<Rightarrow> nat \<Rightarrow> TokenMetadata option option attempt) \<Rightarrow> nat \<Rightarrow> TokenBalance list
     \<Rightarrow> BurnerToken list" where
  "withMetadata fetchMetadata k [] = []"
| "withMetadata fetchMetadata k (token # rest) =
     (case fetchTokenMetadata (fetchMetadata k) (TokenBalance.contractAddress token) of
        None \<Rightarrow> withMetadata fetchMetadata (k + 1) rest
      | Some metadata \<Rightarrow>
          metadata\<lparr>BurnerToken.balance := TokenBalance.tokenBalance token\<rparr>
            # withMetadata fetchMetadata (k + 1) rest)"

text \<open>The comparator of the sort in \<^verbatim>\<open>fetchAllTokens\<close>; an absent \<^verbatim>\<open>isPriority\<close> is falsy.\<close>

definition priority :: "BurnerToken \<Rightarrow> bool" where
  "priority token = (isPriority token = Some True)"

definition priorityCompare ::
  "(string \<Rightarrow> nat list) \<Rightarrow> BurnerToken \<Rightarrow> BurnerToken \<Rightarrow> int" where
  "priorityCompare collationKey a b =
     (if priority a \<and> \<not> priority b then - 1
      else if \<not> priority a \<and> priority b then 1
      else localeCompare collationKey (BurnerToken.symbol a) (BurnerToken.symbol b))"

text \<open>
  The body of the \<^verbatim>\<open>try\<close> block of \<^verbatim>\<open>fetchAllTokens\<close> up to \<^verbatim>\<open>sortedTokens\<close>: the sorted
  list, or the exception that the \<^verbatim>\<open>catch\<close> receives.
\<close>

definition fetchAllTokens_try ::
  "(string \<Rightarrow> nat list) \<Rightarrow> (nat \<Rightarrow> BalancesData option attempt) \<Rightarrow> (nat \<Rightarrow> nat \<Rightarrow> TokenMetadata option option attempt)
     \<Rightarrow> error + BurnerToken list" where
  "fetchAllTokens_try collationKey fetchBalances fetchMetadata =
     (case fst (fetchWithRetry fetchBalances 3 True) of
        Inl e \<Rightarrow> Inl e
      | Inr response \<Rightarrow>
          (case body response of
             None \<Rightarrow> Inl JsonSyntaxError
           | Some json \<Rightarrow>
               (case BalancesData.error json of
                  Some message \<Rightarrow> Inl (ApiError message)
                | None \<Rightarrow>
                    (let tokensWithBalance =
                           filter (\<lambda>token. parseInt16_positive (TokenBalance.tokenBalance token))
                             (tokenBalances json);
                         tokensWithMetadata = withMetadata fetchMetadata 0 tokensWithBalance
                     in Inr (array_sort (priorityCompare collationKey) tokensWithMetadata)))))"

text \<open>
  The state of the component that \<^verbatim>\<open>fetchAllTokens\<close> writes, without the progress
  display (\<^verbatim>\<open>loadingState\<close>). \<open>error\<close> holds the exception whose message the component
  shows after the words \<^verbatim>\<open>Failed to fetch all tokens:\<close>.
\<close>

record BurnerState =
  tokens :: "BurnerToken list"
  error :: "error option"
  allTokensLoaded :: bool

definition fetchAllTokens ::
  "(string \<Rightarrow> nat list) \<Rightarrow> (nat \<Rightarrow> BalancesData option attempt) \<Rightarrow> (nat \<Rightarrow> nat \<Rightarrow> TokenMetadata option option attempt)
     \<Rightarrow> string option \<Rightarrow> string option \<Rightarrow> BurnerState \<Rightarrow> BurnerState" where
  "fetchAllTokens collationKey fetchBalances fetchMetadata address alchemyApiKey st =
     (if \<not> truthy address then st
      else if \<not> truthy alchemyApiKey then st
      else (case fetchAllTokens_try collationKey fetchBalances fetchMetadata of
              Inr sortedTokens \<Rightarrow>
                st\<lparr>BurnerState.tokens := sortedTokens, BurnerState.error := None,
                    allTokensLoaded := True\<rparr>
            | Inl err \<Rightarrow> st\<lparr>BurnerState.error := Some err\<rparr>))"


section \<open>Properties of the call-list construction\<close>

lemma length_createTokenBurnSteps:
  "length (createTokenBurnSteps erc20Abi tokenTransfers burnAddress) = length tokenTransfers"
  by (simp add: createTokenBurnSteps_def)

lemma nth_createTokenBurnSteps:
  "i < length tokenTransfers \<Longrightarrow>
   createTokenBurnSteps erc20Abi tokenTransfers burnAddress ! i =
     burnStep erc20Abi (burnAddressOrDefault burnAddress) (i, tokenTransfers ! i)"
  by (simp add: createTokenBurnSteps_def nth_enumerate_eq)

lemma map_throwing_SomeD:
  "map_throwing f xs = Some ys \<Longrightarrow> list_all2 (\<lambda>x y. f x = Some y) xs ys"
  by (induction xs arbitrary: ys) (auto split: option.splits)

lemma map_throwing_SomeI:
  "list_all2 (\<lambda>x y. f x = Some y) xs ys \<Longrightarrow> map_throwing f xs = Some ys"
  by (induction rule: list_all2_induct) simp_all

lemma map_throwing_None_iff:
  "map_throwing f xs = None \<longleftrightarrow> (\<exists>x \<in> set xs. f x = None)"
  by (induction xs) (auto split: option.splits)

lemma map_throwing_enumerate:
  "map_throwing (\<lambda>p. g (snd p)) (enumerate n xs) = map_throwing g xs"
  by (induction xs arbitrary: n) (simp_all split: option.splits)

lemma map_throwing_map:
  "map_throwing f (map h xs) = map_throwing (\<lambda>x. f (h x)) xs"
  by (induction xs) (simp_all split: option.splits)

lemma createTokenBurnBatchCalls_Some:
  assumes "createTokenBurnBatchCalls encodeFunctionData erc20Abi tokenTransfers burnAddress
             = Some calls"
  shows "length calls = length tokenTransfers"
    and "i < length tokenTransfers \<Longrightarrow>
           to (calls ! i) = TokenTransfer.tokenAddress (tokenTransfers ! i)
           \<and> Some (data (calls ! i))
               = encodeFunctionData erc20Abi ''transfer''
                   [ArgAddress (burnAddressOrDefault burnAddress),
                    ArgBigInt (amount (tokenTransfers ! i))]
           \<and> BatchCall.value (calls ! i) = None"
proof -
  from assms have all2: "list_all2
      (\<lambda>transfer call.
          (case encodeFunctionData erc20Abi ''transfer''
                  [ArgAddress (burnAddressOrDefault burnAddress), ArgBigInt (amount transfer)] of
             None \<Rightarrow> None
           | Some encoded \<Rightarrow>
               Some \<lparr> to = TokenTransfer.tokenAddress transfer, data = encoded, value = None \<rparr>)
          = Some call)
      tokenTransfers calls"
    by (simp add: createTokenBurnBatchCalls_def map_throwing_SomeD)
  then show len: "length calls = length tokenTransfers"
    by (simp add: list_all2_lengthD)
  show "to (calls ! i) = TokenTransfer.tokenAddress (tokenTransfers ! i)
           \<and> Some (data (calls ! i))
               = encodeFunctionData erc20Abi ''transfer''
                   [ArgAddress (burnAddressOrDefault burnAddress),
                    ArgBigInt (amount (tokenTransfers ! i))]
           \<and> BatchCall.value (calls ! i) = None"
    if "i < length tokenTransfers"
  proof -
    from list_all2_nthD[OF all2 that] obtain encoded where
      "encodeFunctionData erc20Abi ''transfer''
         [ArgAddress (burnAddressOrDefault burnAddress), ArgBigInt (amount (tokenTransfers ! i))]
        = Some encoded"
      "calls ! i = \<lparr> to = TokenTransfer.tokenAddress (tokenTransfers ! i), data = encoded,
                      value = None \<rparr>"
      by (auto split: option.splits)
    then show ?thesis by simp
  qed
qed

text \<open>
  C1, as stated, is false where the encoder rejects an argument: for a transfer with an
  amount outside the range of a \<^verbatim>\<open>uint256\<close>, or for a burn address that is not a 20-byte
  address, \<^verbatim>\<open>encodeFunctionData\<close> throws inside the \<^verbatim>\<open>map\<close> and
  \<^verbatim>\<open>createTokenBurnBatchCalls\<close> returns no call list at all.
\<close>

theorem createTokenBurn_calls_counterexample:
  "createTokenBurnBatchCalls (transferEncoder (\<lambda>recipient n. ''0xa9059cbb'')) ''erc20Abi''
     [\<lparr>TokenTransfer.tokenAddress = ''0x833589fCD6eDb6E08f4c7C32D4f71b54bdA02913'',
       amount = - 1, tokenSymbol = Some ''USDC''\<rparr>] None = None
   \<and> createTokenBurnBatchCalls (transferEncoder (\<lambda>recipient n. ''0xa9059cbb'')) ''erc20Abi''
     [\<lparr>TokenTransfer.tokenAddress = ''0x833589fCD6eDb6E08f4c7C32D4f71b54bdA02913'',
       amount = 5, tokenSymbol = Some ''USDC''\<rparr>] (Some ''0xA1'') = None"
  by code_simp

text \<open>
  C1 (amended). For a list of \<open>N\<close> token transfers and any burn address argument (the
  address \<^verbatim>\<open>0x000000000000000000000000000000000000dEaD\<close> when the argument is left out),
  \<^verbatim>\<open>createTokenBurnSteps\<close> gives exactly \<open>N\<close> steps; the \<open>i\<close>-th step targets the token
  contract of the \<open>i\<close>-th transfer and names the ERC20 function \<^verbatim>\<open>transfer\<close> with the
  arguments (burn address, full amount of that transfer), and has no value.
  \<^verbatim>\<open>createTokenBurnBatchCalls\<close> gives exactly \<open>N\<close> calls whenever the encoder accepts the
  arguments of every transfer; the \<open>i\<close>-th call then targets the same contract, carries
  the encoding of that same function and arguments, and has no value. When the encoder
  rejects the arguments of some transfer, \<^verbatim>\<open>createTokenBurnBatchCalls\<close> throws and gives
  no list.
\<close>

theorem createTokenBurn_calls:
  "burnAddressOrDefault None = ''0x000000000000000000000000000000000000dEaD''
   \<and> burnAddressOrDefault (Some a) = a
   \<and> length (createTokenBurnSteps erc20Abi tokenTransfers burnAddress) = length tokenTransfers
   \<and> (\<forall>i < length tokenTransfers.
         TransactionStep.contractAddress (createTokenBurnSteps erc20Abi tokenTransfers burnAddress ! i)
           = TokenTransfer.tokenAddress (tokenTransfers ! i)
         \<and> abi (createTokenBurnSteps erc20Abi tokenTransfers burnAddress ! i) = erc20Abi
         \<and> functionName (createTokenBurnSteps erc20Abi tokenTransfers burnAddress ! i) = ''transfer''
         \<and> args (createTokenBurnSteps erc20Abi tokenTransfers burnAddress ! i)
             = [ArgAddress (burnAddressOrDefault burnAddress), ArgBigInt (amount (tokenTransfers ! i))]
         \<and> TransactionStep.value (createTokenBurnSteps erc20Abi tokenTransfers burnAddress ! i) = None)
   \<and> ((\<forall>transfer \<in> set tokenTransfers.
          encodeFunctionData erc20Abi ''transfer''
            [ArgAddress (burnAddressOrDefault burnAddress), ArgBigInt (amount transfer)] \<noteq> None)
        \<longrightarrow> (\<exists>calls.
              createTokenBurnBatchCalls encodeFunctionData erc20Abi tokenTransfers burnAddress
                = Some calls
              \<and> length calls = length tokenTransfers
              \<and> (\<forall>i < length tokenTransfers.
                    to (calls ! i) = TokenTransfer.tokenAddress (tokenTransfers ! i)
                    \<and> Some (data (calls ! i))
                        = encodeFunctionData erc20Abi ''transfer''
                            [ArgAddress (burnAddressOrDefault burnAddress),
                             ArgBigInt (amount (tokenTransfers ! i))]
                    \<and> BatchCall.value (calls ! i) = None)))
   \<and> ((\<exists>transfer \<in> set tokenTransfers.
          encodeFunctionData erc20Abi ''transfer''
            [ArgAddress (burnAddressOrDefault burnAddress), ArgBigInt (amount transfer)] = None)
        \<longrightarrow> createTokenBurnBatchCalls encodeFunctionData erc20Abi tokenTransfers burnAddress
              = None)"
proof -
  have default: "burnAddressOrDefault None = ''0x000000000000000000000000000000000000dEaD''"
    by (simp add: burnAddressOrDefault_def DEFAULT_BURN_ADDRESS_def)
  have given: "burnAddressOrDefault (Some a) = a"
    by (simp add: burnAddressOrDefault_def)
  have steps: "\<forall>i < length tokenTransfers.
         TransactionStep.contractAddress (createTokenBurnSteps erc20Abi tokenTransfers burnAddress ! i)
           = TokenTransfer.tokenAddress (tokenTransfers ! i)
         \<and> abi (createTokenBurnSteps erc20Abi tokenTransfers burnAddress ! i) = erc20Abi
         \<and> functionName (createTokenBurnSteps erc20Abi tokenTransfers burnAddress ! i) = ''transfer''
         \<and> args (createTokenBurnSteps erc20Abi tokenTransfers burnAddress ! i)
             = [ArgAddress (burnAddressOrDefault burnAddress), ArgBigInt (amount (tokenTransfers ! i))]
         \<and> TransactionStep.value (createTokenBurnSteps erc20Abi tokenTransfers burnAddress ! i) = None"
    by (simp add: nth_createTokenBurnSteps burnStep_def)
  have rejected: "createTokenBurnBatchCalls encodeFunctionData erc20Abi tokenTransfers burnAddress
              = None"
    if "\<exists>transfer \<in> set tokenTransfers.
          encodeFunctionData erc20Abi ''transfer''
            [ArgAddress (burnAddressOrDefault burnAddress), ArgBigInt (amount transfer)] = None"
  proof -
    from that obtain transfer where "transfer \<in> set tokenTransfers"
      "encodeFunctionData erc20Abi ''transfer''
         [ArgAddress (burnAddressOrDefault burnAddress), ArgBigInt (amount transfer)] = None"
      by blast
    then show ?thesis
      unfolding createTokenBurnBatchCalls_def map_throwing_None_iff
      by (intro bexI[of _ transfer]) simp_all
  qed
  have accepted: "\<exists>calls.
              createTokenBurnBatchCalls encodeFunctionData erc20Abi tokenTransfers burnAddress
                = Some calls
              \<and> length calls = length tokenTransfers
              \<and> (\<forall>i < length tokenTransfers.
                    to (calls ! i) = TokenTransfer.tokenAddress (tokenTransfers ! i)
                    \<and> Some (data (calls ! i))
                        = encodeFunctionData erc20Abi ''transfer''
                            [ArgAddress (burnAddressOrDefault burnAddress),
                             ArgBigInt (amount (tokenTransfers ! i))]
                    \<and> BatchCall.value (calls ! i) = None)"
    if ok: "\<forall>transfer \<in> set tokenTransfers.
          encodeFunctionData erc20Abi ''transfer''
            [ArgAddress (burnAddressOrDefault burnAddress), ArgBigInt (amount transfer)] \<noteq> None"
  proof -
    have "createTokenBurnBatchCalls encodeFunctionData erc20Abi tokenTransfers burnAddress \<noteq> None"
      using ok
      by (auto simp: createTokenBurnBatchCalls_def map_throwing_None_iff split: option.splits)
    then obtain calls where calls:
      "createTokenBurnBatchCalls encodeFunctionData erc20Abi tokenTransfers burnAddress = Some calls"
      by blast
    show ?thesis
      using calls createTokenBurnBatchCalls_Some[OF calls] by blast
  qed
  show ?thesis
    using default given steps accepted rejected
    by (simp only: length_createTokenBurnSteps) blast
qed

theorem createTokenBurn_calls_witness:
  "length (createTokenBurnSteps ''erc20Abi''
        [\<lparr>TokenTransfer.tokenAddress = ''0x833589fCD6eDb6E08f4c7C32D4f71b54bdA02913'',
          amount = 5, tokenSymbol = Some ''USDC''\<rparr>,
         \<lparr>TokenTransfer.tokenAddress = ''0x4200000000000000000000000000000000000006'',
          amount = 70, tokenSymbol = None\<rparr>] None) = 2
   \<and> args (createTokenBurnSteps ''erc20Abi''
        [\<lparr>TokenTransfer.tokenAddress = ''0x833589fCD6eDb6E08f4c7C32D4f71b54bdA02913'',
          amount = 5, tokenSymbol = Some ''USDC''\<rparr>,
         \<lparr>TokenTransfer.tokenAddress = ''0x4200000000000000000000000000000000000006'',
          amount = 70, tokenSymbol = None\<rparr>] None ! 1)
       = [ArgAddress ''0x000000000000000000000000000000000000dEaD'', ArgBigInt 70]
   \<and> createTokenBurnBatchCalls (transferEncoder (\<lambda>recipient n. ''0xa9059cbb'')) ''erc20Abi''
        [\<lparr>TokenTransfer.tokenAddress = ''0x833589fCD6eDb6E08f4c7C32D4f71b54bdA02913'',
          amount = 5, tokenSymbol = Some ''USDC''\<rparr>,
         \<lparr>TokenTransfer.tokenAddress = ''0x4200000000000000000000000000000000000006'',
          amount = 70, tokenSymbol = None\<rparr>] None
       = Some [\<lparr>to = ''0x833589fCD6eDb6E08f4c7C32D4f71b54bdA02913'', data = ''0xa9059cbb'',
                 value = None\<rparr>,
               \<lparr>to = ''0x4200000000000000000000000000000000000006'', data = ''0xa9059cbb'',
                 value = None\<rparr>]
   \<and> createTokenBurnBatchCalls (transferEncoder (\<lambda>recipient n. ''0xa9059cbb'')) ''erc20Abi''
        [\<lparr>TokenTransfer.tokenAddress = ''0x833589fCD6eDb6E08f4c7C32D4f71b54bdA02913'',
          amount = 5, tokenSymbol = Some ''USDC''\<rparr>,
         \<lparr>TokenTransfer.tokenAddress = ''0x4200000000000000000000000000000000000006'',
          amount = - 70, tokenSymbol = None\<rparr>] None
       = None"
proof -
  have accepts: "transferEncoder (\<lambda>recipient n. ''0xa9059cbb'') ''erc20Abi'' ''transfer''
      [ArgAddress (burnAddressOrDefault None), ArgBigInt 5] = Some ''0xa9059cbb''
    \<and> transferEncoder (\<lambda>recipient n. ''0xa9059cbb'') ''erc20Abi'' ''transfer''
      [ArgAddress (burnAddressOrDefault None), ArgBigInt 70] = Some ''0xa9059cbb''
    \<and> transferEncoder (\<lambda>recipient n. ''0xa9059cbb'') ''erc20Abi'' ''transfer''
      [ArgAddress (burnAddressOrDefault None), ArgBigInt (- 70)] = None"
    by code_simp
  have run: "createTokenBurnBatchCalls (transferEncoder (\<lambda>recipient n. ''0xa9059cbb'')) ''erc20Abi''
        [\<lparr>TokenTransfer.tokenAddress = ''0x833589fCD6eDb6E08f4c7C32D4f71b54bdA02913'',
          amount = 5, tokenSymbol = Some ''USDC''\<rparr>,
         \<lparr>TokenTransfer.tokenAddress = ''0x4200000000000000000000000000000000000006'',
          amount = 70, tokenSymbol = None\<rparr>] None
       = Some [\<lparr>to = ''0x833589fCD6eDb6E08f4c7C32D4f71b54bdA02913'', data = ''0xa9059cbb'',
                 value = None\<rparr>,
               \<lparr>to = ''0x4200000000000000000000000000000000000006'', data = ''0xa9059cbb'',
                 value = None\<rparr>]"
    by code_simp
  show ?thesis
    using accepts run
      createTokenBurn_calls [of "''unused''" "''erc20Abi''"
        "[\<lparr>TokenTransfer.tokenAddress = ''0x833589fCD6eDb6E08f4c7C32D4f71b54bdA02913'',
          amount = 5, tokenSymbol = Some ''USDC''\<rparr>,
         \<lparr>TokenTransfer.tokenAddress = ''0x4200000000000000000000000000000000000006'',
          amount = 70, tokenSymbol = None\<rparr>]" None
        "transferEncoder (\<lambda>recipient n. ''0xa9059cbb'')"]
      createTokenBurn_calls [of "''unused''" "''erc20Abi''"
        "[\<lparr>TokenTransfer.tokenAddress = ''0x833589fCD6eDb6E08f4c7C32D4f71b54bdA02913'',
          amount = 5, tokenSymbol = Some ''USDC''\<rparr>,
         \<lparr>TokenTransfer.tokenAddress = ''0x4200000000000000000000000000000000000006'',
          amount = - 70, tokenSymbol = None\<rparr>]" None
        "transferEncoder (\<lambda>recipient n. ''0xa9059cbb'')"]
    by simp
qed

text \<open>
  C10. Converting the steps of \<^verbatim>\<open>createTokenBurnSteps\<close> with
  \<^verbatim>\<open>transactionStepsToBatchCalls\<close> does what \<^verbatim>\<open>createTokenBurnBatchCalls\<close> does directly,
  for every encoder: both throw, or both give the same list of calls, so the two results
  agree element by element on \<^verbatim>\<open>to\<close> and \<^verbatim>\<open>data\<close>; the targets are the token addresses
  of the transfers in order and no element of either has a value. (A property \<^verbatim>\<open>value\<close>
  that holds \<^verbatim>\<open>undefined\<close> and a property that is absent both read as \<^verbatim>\<open>undefined\<close>: both
  are \<open>None\<close>.)
\<close>

theorem steps_to_batch_calls_eq_direct:
  "transactionStepsToBatchCalls encodeFunctionData
       (createTokenBurnSteps erc20Abi tokenTransfers burnAddress)
     = createTokenBurnBatchCalls encodeFunctionData erc20Abi tokenTransfers burnAddress
   \<and> (\<forall>calls.
        createTokenBurnBatchCalls encodeFunctionData erc20Abi tokenTransfers burnAddress
          = Some calls
        \<longrightarrow> map to calls = map TokenTransfer.tokenAddress tokenTransfers
            \<and> map BatchCall.value calls = replicate (length tokenTransfers) None)"
proof -
  let ?direct = "\<lambda>transfer.
        case encodeFunctionData erc20Abi ''transfer''
               [ArgAddress (burnAddressOrDefault burnAddress), ArgBigInt (amount transfer)] of
          None \<Rightarrow> None
        | Some encoded \<Rightarrow>
            Some \<lparr> to = TokenTransfer.tokenAddress transfer, data = encoded, value = None \<rparr>"
  have step: "(\<lambda>p. case encodeFunctionData
                    (abi (burnStep erc20Abi (burnAddressOrDefault burnAddress) p))
                    (functionName (burnStep erc20Abi (burnAddressOrDefault burnAddress) p))
                    (args (burnStep erc20Abi (burnAddressOrDefault burnAddress) p)) of
          None \<Rightarrow> None
        | Some encoded \<Rightarrow>
            Some \<lparr> to = TransactionStep.contractAddress
                          (burnStep erc20Abi (burnAddressOrDefault burnAddress) p),
                   data = encoded,
                   value = TransactionStep.value
                             (burnStep erc20Abi (burnAddressOrDefault burnAddress) p) \<rparr>)
      = (\<lambda>p. ?direct (snd p))"
    by (rule ext) (auto simp: burnStep_def split: prod.splits option.splits)
  have eq: "transactionStepsToBatchCalls encodeFunctionData
       (createTokenBurnSteps erc20Abi tokenTransfers burnAddress)
     = createTokenBurnBatchCalls encodeFunctionData erc20Abi tokenTransfers burnAddress"
    unfolding transactionStepsToBatchCalls_def createTokenBurnSteps_def
      createTokenBurnBatchCalls_def map_throwing_map step
    by (rule map_throwing_enumerate)
  have fields: "map to calls = map TokenTransfer.tokenAddress tokenTransfers
            \<and> map BatchCall.value calls = replicate (length tokenTransfers) None"
    if calls: "createTokenBurnBatchCalls encodeFunctionData erc20Abi tokenTransfers burnAddress
          = Some calls" for calls
  proof -
    note facts = createTokenBurnBatchCalls_Some[OF calls]
    have "map to calls = map TokenTransfer.tokenAddress tokenTransfers"
      by (rule nth_equalityI) (simp_all add: facts)
    moreover have "map BatchCall.value calls = replicate (length tokenTransfers) None"
      by (rule nth_equalityI) (simp_all add: facts)
    ultimately show ?thesis by simp
  qed
  show ?thesis
    using eq fields by blast
qed

theorem steps_to_batch_calls_eq_direct_witness:
  "transactionStepsToBatchCalls (transferEncoder (\<lambda>recipient n. ''0xa9059cbb''))
       (createTokenBurnSteps ''erc20Abi''
          [\<lparr>TokenTransfer.tokenAddress = ''0x833589fCD6eDb6E08f4c7C32D4f71b54bdA02913'',
            amount = 5, tokenSymbol = Some ''USDC''\<rparr>] None)
     = Some [\<lparr>to = ''0x833589fCD6eDb6E08f4c7C32D4f71b54bdA02913'', data = ''0xa9059cbb'',
               value = None\<rparr>]
   \<and> createTokenBurnBatchCalls (transferEncoder (\<lambda>recipient n. ''0xa9059cbb'')) ''erc20Abi''
          [\<lparr>TokenTransfer.tokenAddress = ''0x833589fCD6eDb6E08f4c7C32D4f71b54bdA02913'',
            amount = 5, tokenSymbol = Some ''USDC''\<rparr>] None
     = Some [\<lparr>to = ''0x833589fCD6eDb6E08f4c7C32D4f71b54bdA02913'', data = ''0xa9059cbb'',
               value = None\<rparr>]
   \<and> transactionStepsToBatchCalls (transferEncoder (\<lambda>recipient n. ''0xa9059cbb''))
       (createTokenBurnSteps ''erc20Abi''
          [\<lparr>TokenTransfer.tokenAddress = ''0x833589fCD6eDb6E08f4c7C32D4f71b54bdA02913'',
            amount = - 1, tokenSymbol = Some ''USDC''\<rparr>] None)
     = None"
proof -
  have direct: "createTokenBurnBatchCalls (transferEncoder (\<lambda>recipient n. ''0xa9059cbb''))
          ''erc20Abi''
          [\<lparr>TokenTransfer.tokenAddress = ''0x833589fCD6eDb6E08f4c7C32D4f71b54bdA02913'',
            amount = 5, tokenSymbol = Some ''USDC''\<rparr>] None
     = Some [\<lparr>to = ''0x833589fCD6eDb6E08f4c7C32D4f71b54bdA02913'', data = ''0xa9059cbb'',
               value = None\<rparr>]"
    by code_simp
  have thrown: "createTokenBurnBatchCalls (transferEncoder (\<lambda>recipient n. ''0xa9059cbb''))
          ''erc20Abi''
          [\<lparr>TokenTransfer.tokenAddress = ''0x833589fCD6eDb6E08f4c7C32D4f71b54bdA02913'',
            amount = - 1, tokenSymbol = Some ''USDC''\<rparr>] None
     = None"
    by code_simp
  show ?thesis
    using direct thrown
      steps_to_batch_calls_eq_direct [of "transferEncoder (\<lambda>recipient n. ''0xa9059cbb'')"
        "''erc20Abi''"
        "[\<lparr>TokenTransfer.tokenAddress = ''0x833589fCD6eDb6E08f4c7C32D4f71b54bdA02913'',
            amount = 5, tokenSymbol = Some ''USDC''\<rparr>]" None]
      steps_to_batch_calls_eq_direct [of "transferEncoder (\<lambda>recipient n. ''0xa9059cbb'')"
        "''erc20Abi''"
        "[\<lparr>TokenTransfer.tokenAddress = ''0x833589fCD6eDb6E08f4c7C32D4f71b54bdA02913'',
            amount = - 1, tokenSymbol = Some ''USDC''\<rparr>]" None]
    by simp
qed


section \<open>Properties of the selection set\<close>

text \<open>
  C8, as stated, is false where the token is already selected: selecting it changes
  nothing, and deselecting it then removes it.
\<close>

theorem select_then_deselect_counterexample:
  "handleTokenSelect (handleTokenSelect {''0xA1''} ''0xA1'' True) ''0xA1'' False \<noteq> {''0xA1''}"
  by (simp add: handleTokenSelect_def)

text \<open>
  C8 (amended). For every selection set and every contract address that is not in it,
  selecting that token (\<^verbatim>\<open>handleTokenSelect\<close> with \<^verbatim>\<open>checked = true\<close>) and then deselecting
  it (\<^verbatim>\<open>checked = false\<close>) returns the selection set to its prior state.
\<close>

theorem select_then_deselect:
  "address \<notin> selectedTokens \<Longrightarrow>
   handleTokenSelect (handleTokenSelect selectedTokens address True) address False = selectedTokens"
  by (simp add: handleTokenSelect_def)

theorem select_then_deselect_witness:
  "''0xA1'' \<notin> {''0xB2''}
   \<and> handleTokenSelect (handleTokenSelect {''0xB2''} ''0xA1'' True) ''0xA1'' False = {''0xB2''}"
  using select_then_deselect [of "''0xA1''" "{''0xB2''}"] by simp

text \<open>
  C6. In the batch-burn flow a settled submission with status \<^verbatim>\<open>success\<close> empties the
  selection set. One with status \<^verbatim>\<open>failure\<close> (or any status other than \<^verbatim>\<open>success\<close>)
  leaves the set as it is, so the retry, which runs \<^verbatim>\<open>handleBurnTokens\<close> again on the same
  token list and selection, builds the identical call list.
\<close>

theorem settled_submission_selection:
  "resetSelectedOnSuccess True (Some ''success'') selectedTokens = {}
   \<and> resetSelectedOnSuccess isCallsSuccess (Some ''failure'') selectedTokens = selectedTokens
   \<and> (callsStatus \<noteq> Some ''success'' \<longrightarrow>
        resetSelectedOnSuccess isCallsSuccess callsStatus selectedTokens = selectedTokens)
   \<and> handleBurnTokens encodeFunctionData erc20Abi BigInt publicClient tokenList
        (resetSelectedOnSuccess isCallsSuccess (Some ''failure'') selectedTokens)
       = handleBurnTokens encodeFunctionData erc20Abi BigInt publicClient tokenList selectedTokens"
  by (simp add: resetSelectedOnSuccess_def)

theorem settled_submission_selection_witness:
  "resetSelectedOnSuccess True (Some ''success'') {''0xA1'', ''0xC3''} = {}
   \<and> Some ''pending'' \<noteq> Some ''success''
   \<and> resetSelectedOnSuccess True (Some ''pending'') {''0xA1'', ''0xC3''} = {''0xA1'', ''0xC3''}
   \<and> handleBurnTokens (\<lambda>abi fn xs. Some fn) ''erc20Abi'' (\<lambda>s. Some 7) True
        [\<lparr>Token.contractAddress = ''0xA1'', symbol = ''USDC'', name = ''USD Coin'',
           balance = ''7'', balanceFormatted = ''0.000007''\<rparr>,
         \<lparr>Token.contractAddress = ''0xB2'', symbol = ''DAI'', name = ''Dai'',
           balance = ''7'', balanceFormatted = ''0.000007''\<rparr>]
        (resetSelectedOnSuccess True (Some ''failure'') {''0xA1'', ''0xC3''})
       = SentCalls [\<lparr>to = ''0xA1'', data = ''transfer'', value = None\<rparr>]"
proof -
  have sent: "handleBurnTokens (\<lambda>abi fn xs. Some fn) ''erc20Abi'' (\<lambda>s. Some 7) True
        [\<lparr>Token.contractAddress = ''0xA1'', symbol = ''USDC'', name = ''USD Coin'',
           balance = ''7'', balanceFormatted = ''0.000007''\<rparr>,
         \<lparr>Token.contractAddress = ''0xB2'', symbol = ''DAI'', name = ''Dai'',
           balance = ''7'', balanceFormatted = ''0.000007''\<rparr>]
        {''0xA1'', ''0xC3''}
       = SentCalls [\<lparr>to = ''0xA1'', data = ''transfer'', value = None\<rparr>]"
    by (simp add: handleBurnTokens_def selectedTokensList_def)
  show ?thesis
    using sent
      settled_submission_selection [of "{''0xA1'', ''0xC3''}" True "Some ''pending''"
        "\<lambda>abi fn xs. Some fn" "''erc20Abi''" "\<lambda>s. Some 7" True
        "[\<lparr>Token.contractAddress = ''0xA1'', symbol = ''USDC'', name = ''USD Coin'',
           balance = ''7'', balanceFormatted = ''0.000007''\<rparr>,
         \<lparr>Token.contractAddress = ''0xB2'', symbol = ''DAI'', name = ''Dai'',
           balance = ''7'', balanceFormatted = ''0.000007''\<rparr>]"]
    by simp
qed


section \<open>Properties of the retry-wrapped fetch\<close>

lemma fwr_from_stop:
  "\<not> int i < retries \<Longrightarrow> fetchWithRetry_from fetch retries onRetry i = (Inl MaxRetriesExceeded, [])"
  by (subst fetchWithRetry_from.simps) simp

lemma fwr_from_last:
  "int i = retries - 1 \<Longrightarrow> \<not> attempt_ok (fetch i) \<Longrightarrow>
   fetchWithRetry_from fetch retries onRetry i = (Inl (attempt_error (fetch i)), [])"
  by (subst fetchWithRetry_from.simps) (cases "fetch i"; simp)

lemma fwr_from_ok:
  "int i < retries \<Longrightarrow> fetch i = Resolved response \<Longrightarrow> ok response \<Longrightarrow>
   fetchWithRetry_from fetch retries onRetry i = (Inr response, [])"
  by (subst fetchWithRetry_from.simps) simp

lemma fwr_from_step_sleeps:
  "int i < retries \<Longrightarrow> int i \<noteq> retries - 1 \<Longrightarrow> \<not> attempt_ok (fetch i) \<Longrightarrow>
   sleeps (snd (fetchWithRetry_from fetch retries onRetry i)) =
     2 ^ i * 1000 # sleeps (snd (fetchWithRetry_from fetch retries onRetry (i + 1)))"
  by (subst fetchWithRetry_from.simps) (cases "fetch i"; simp split: prod.splits)

lemma fwr_from_cases:
  obtains (stop) "\<not> int i < retries"
  | (good) response where "int i < retries" "fetch i = Resolved response" "ok response"
  | (last) "int i = retries - 1" "\<not> attempt_ok (fetch i)"
  | (again) "int i < retries" "int i \<noteq> retries - 1" "\<not> attempt_ok (fetch i)"
proof (cases "int i < retries")
  case False
  then show ?thesis by (rule stop)
next
  case lt: True
  show ?thesis
  proof (cases "attempt_ok (fetch i)")
    case True
    then obtain response where "fetch i = Resolved response" "ok response"
      by (cases "fetch i") auto
    with lt show ?thesis by (rule good)
  next
    case bad: False
    show ?thesis
    proof (cases "int i = retries - 1")
      case True
      then show ?thesis using bad by (rule last)
    next
      case False
      with lt show ?thesis using bad by (rule again)
    qed
  qed
qed

lemma sleeps_from_shape:
  "\<exists>n. sleeps (snd (fetchWithRetry_from fetch retries onRetry i)) = map (\<lambda>j. 2 ^ j * 1000) [i ..< i + n]
       \<and> i + n \<le> max i (nat (retries - 1))"
proof (induction "nat (retries - int i)" arbitrary: i)
  case 0
  then have "\<not> int i < retries" by simp
  then show ?case by (intro exI[of _ 0]) (simp add: fwr_from_stop)
next
  case (Suc m)
  show ?case
  proof (cases rule: fwr_from_cases[where i = i and retries = retries and fetch = fetch])
    case stop
    then show ?thesis by (intro exI[of _ 0]) (simp add: fwr_from_stop)
  next
    case (good response)
    then show ?thesis by (intro exI[of _ 0]) (simp add: fwr_from_ok)
  next
    case last
    then show ?thesis by (intro exI[of _ 0]) (simp add: fwr_from_last)
  next
    case again
    let ?rest = "sleeps (snd (fetchWithRetry_from fetch retries onRetry (i + 1)))"
    have "m = nat (retries - int (i + 1))" using Suc.hyps(2) by simp
    from Suc.hyps(1)[OF this] obtain n
      where ih: "?rest = map (\<lambda>j. 2 ^ j * 1000) [i + 1 ..< i + 1 + n]"
        and bound: "i + 1 + n \<le> max (i + 1) (nat (retries - 1))" by blast
    have step: "sleeps (snd (fetchWithRetry_from fetch retries onRetry i)) = 2 ^ i * 1000 # ?rest"
      using again by (rule fwr_from_step_sleeps)
    have "sleeps (snd (fetchWithRetry_from fetch retries onRetry i)) = map (\<lambda>j. 2 ^ j * 1000) [i ..< i + (1 + n)]"
      unfolding step ih by (simp add: upt_conv_Cons)
    moreover have "i + (1 + n) \<le> max i (nat (retries - 1))"
      using bound again by simp
    ultimately show ?thesis by blast
  qed
qed

lemma sleeps_from_all_fail:
  "int i < retries \<Longrightarrow> (\<And>j. i \<le> j \<Longrightarrow> int j < retries \<Longrightarrow> \<not> attempt_ok (fetch j)) \<Longrightarrow>
   sleeps (snd (fetchWithRetry_from fetch retries onRetry i)) = map (\<lambda>j. 2 ^ j * 1000) [i ..< nat (retries - 1)]"
proof (induction "nat (retries - 1) - i" arbitrary: i)
  case 0
  then have eq: "int i = retries - 1" by auto
  moreover have "\<not> attempt_ok (fetch i)" using 0 by auto
  ultimately show ?case using fwr_from_last[of i retries fetch onRetry] by simp
next
  case (Suc n)
  then have ne: "int i \<noteq> retries - 1" and lt': "int (i + 1) < retries" and lt2: "i < nat (retries - 1)" by auto
  have bad: "\<not> attempt_ok (fetch i)" using Suc.prems by auto
  have ih: "sleeps (snd (fetchWithRetry_from fetch retries onRetry (i + 1))) = map (\<lambda>j. 2 ^ j * 1000) [i + 1 ..< nat (retries - 1)]"
    using Suc.hyps(1)[of "i + 1"] Suc.hyps(2) Suc.prems lt' by auto
  show ?case
    using fwr_from_step_sleeps[of i retries fetch onRetry] Suc.prems(1) ne bad ih lt2
    by (simp add: upt_conv_Cons)
qed

lemma sum_backoff: "sum_list (map (\<lambda>j. 2 ^ j * 1000) [0 ..< n]) = (2 ^ n - 1) * (1000::nat)"
  by (induction n) (simp_all add: algebra_simps)

lemma sum_backoff_mono: "m \<le> n \<Longrightarrow> (2 ^ m - 1) * (1000::nat) \<le> (2 ^ n - 1) * 1000"
  by (simp add: diff_le_mono)

lemma fwr_from_step:
  "int i < retries \<Longrightarrow> int i \<noteq> retries - 1 \<Longrightarrow> \<not> attempt_ok (fetch i) \<Longrightarrow>
   fst (fetchWithRetry_from fetch retries onRetry i) = fst (fetchWithRetry_from fetch retries onRetry (i + 1))"
  by (subst fetchWithRetry_from.simps) (cases "fetch i"; simp split: prod.splits)

lemma fwr_from_success:
  "i \<le> k \<Longrightarrow> int k < retries \<Longrightarrow> fetch k = Resolved response \<Longrightarrow> ok response \<Longrightarrow>
   (\<And>j. i \<le> j \<Longrightarrow> j < k \<Longrightarrow> \<not> attempt_ok (fetch j)) \<Longrightarrow>
   fst (fetchWithRetry_from fetch retries onRetry i) = Inr response"
proof (induction "k - i" arbitrary: i)
  case 0
  then have "i = k" by simp
  with 0 show ?case by (simp add: fwr_from_ok)
next
  case (Suc n)
  then have ik: "i < k" and bad: "\<not> attempt_ok (fetch i)" by auto
  have ih: "fst (fetchWithRetry_from fetch retries onRetry (i + 1)) = Inr response"
    using Suc.hyps(1)[of "i + 1"] Suc.hyps(2) Suc.prems by auto
  from ik Suc.prems(2) have lt: "int i < retries" and ne: "int i \<noteq> retries - 1" by auto
  show ?case
    using fwr_from_step[of i retries fetch onRetry] lt ne bad ih by simp
qed

lemma fwr_from_all_fail:
  "int i < retries \<Longrightarrow> (\<And>j. i \<le> j \<Longrightarrow> int j < retries \<Longrightarrow> \<not> attempt_ok (fetch j)) \<Longrightarrow>
   fst (fetchWithRetry_from fetch retries onRetry i) = Inl (attempt_error (fetch (nat (retries - 1))))"
proof (induction "nat (retries - 1) - i" arbitrary: i)
  case 0
  then have eq: "int i = retries - 1" by auto
  then have "nat (retries - 1) = i" by auto
  moreover have "\<not> attempt_ok (fetch i)" using 0 by auto
  ultimately show ?case using fwr_from_last[of i retries fetch onRetry] eq by simp
next
  case (Suc n)
  then have ne: "int i \<noteq> retries - 1" and lt': "int (i + 1) < retries" by auto
  have bad: "\<not> attempt_ok (fetch i)" using Suc.prems by auto
  have ih: "fst (fetchWithRetry_from fetch retries onRetry (i + 1)) = Inl (attempt_error (fetch (nat (retries - 1))))"
    using Suc.hyps(1)[of "i + 1"] Suc.hyps(2) Suc.prems lt' by auto
  show ?case
    using fwr_from_step[of i retries fetch onRetry] Suc.prems(1) ne bad ih by simp
qed


lemma attempt_error_not_MaxRetriesExceeded: "attempt_error a \<noteq> MaxRetriesExceeded"
  by (cases a) simp_all

lemma fwr_from_first_ok:
  assumes "int k < retries" "attempt_ok (fetch k)" "\<And>j. j < k \<Longrightarrow> \<not> attempt_ok (fetch j)"
  shows "\<exists>response. fst (fetchWithRetry_from fetch retries onRetry 0) = Inr response"
proof -
  from assms(2) obtain response where "fetch k = Resolved response" "ok response"
    by (cases "fetch k") auto
  with assms(1,3) have "fst (fetchWithRetry_from fetch retries onRetry 0) = Inr response"
    using fwr_from_success[of 0 k retries fetch response onRetry] by simp
  then show ?thesis ..
qed

lemma fwr_positive_budget:
  assumes "0 < retries"
  shows "fst (fetchWithRetry fetch retries onRetry) \<noteq> Inl MaxRetriesExceeded"
proof (cases "\<exists>k. int k < retries \<and> attempt_ok (fetch k)")
  case True
  then obtain k where k: "int k < retries \<and> attempt_ok (fetch k)"
    and least: "\<And>j. j < k \<Longrightarrow> \<not> (int j < retries \<and> attempt_ok (fetch j))"
    using exists_least_iff[of "\<lambda>k. int k < retries \<and> attempt_ok (fetch k)"] by blast
  have "\<not> attempt_ok (fetch j)" if "j < k" for j
    using least[OF that] that k by auto
  with k obtain response where "fst (fetchWithRetry_from fetch retries onRetry 0) = Inr response"
    using fwr_from_first_ok[of k retries fetch onRetry] by blast
  then show ?thesis by (simp add: fetchWithRetry_def)
next
  case False
  with assms have "fst (fetchWithRetry_from fetch retries onRetry 0)
      = Inl (attempt_error (fetch (nat (retries - 1))))"
    using fwr_from_all_fail[of 0 retries fetch onRetry] by auto
  then show ?thesis
    by (simp add: fetchWithRetry_def attempt_error_not_MaxRetriesExceeded)
qed

text \<open>
  C5, as stated, is false: with the default budget and a server that always answers 500, the
  helper fails with the error of the last attempt, \<^verbatim>\<open>HTTP 500\<close>, and not with
  \<^verbatim>\<open>Max retries exceeded\<close>.
\<close>

theorem max_retries_exceeded_counterexample:
  "fst (fetchWithRetry (\<lambda>i. Resolved \<lparr>status = 500, body = ''Internal Server Error''\<rparr>)
          DEFAULT_RETRIES False) = Inl (HttpError 500)
   \<and> fst (fetchWithRetry (\<lambda>i. Resolved \<lparr>status = 500, body = ''Internal Server Error''\<rparr>)
          DEFAULT_RETRIES False) \<noteq> Inl MaxRetriesExceeded"
  by (simp add: fetchWithRetry_def DEFAULT_RETRIES_def ok_def fetchWithRetry_from.simps)

text \<open>
  C5 (amended). For every network, retry budget and callback, \<^verbatim>\<open>fetchWithRetry\<close> tries
  again after every attempt that rejects or answers with a status outside 200 to 299, as
  long as attempts remain: it returns the response of the first attempt, among the first
  \<open>retries\<close>, that is ok. When the budget is at least 1 and every attempt fails, it fails
  with the error of the last attempt (the network error, or \<^verbatim>\<open>HTTP\<close> and the status). The
  error \<^verbatim>\<open>Max retries exceeded\<close> is the result exactly when the budget is zero or less.
\<close>

theorem fetchWithRetry_result:
  "(retries \<le> 0 \<longrightarrow> fst (fetchWithRetry fetch retries onRetry) = Inl MaxRetriesExceeded)
   \<and> (0 < retries \<longrightarrow> fst (fetchWithRetry fetch retries onRetry) \<noteq> Inl MaxRetriesExceeded)
   \<and> (int k < retries \<and> fetch k = Resolved response \<and> ok response
        \<and> (\<forall>j < k. \<not> attempt_ok (fetch j))
      \<longrightarrow> fst (fetchWithRetry fetch retries onRetry) = Inr response)
   \<and> (0 < retries \<and> (\<forall>j. int j < retries \<longrightarrow> \<not> attempt_ok (fetch j))
      \<longrightarrow> fst (fetchWithRetry fetch retries onRetry)
            = Inl (attempt_error (fetch (nat (retries - 1)))))"
proof -
  have none: "fst (fetchWithRetry fetch retries onRetry) = Inl MaxRetriesExceeded"
    if "retries \<le> 0"
    using that by (simp add: fetchWithRetry_def fwr_from_stop)
  have first: "fst (fetchWithRetry fetch retries onRetry) = Inr response"
    if "int k < retries" "fetch k = Resolved response" "ok response"
      "\<forall>j < k. \<not> attempt_ok (fetch j)"
    using that fwr_from_success[of 0 k retries fetch response onRetry]
    by (simp add: fetchWithRetry_def)
  have last: "fst (fetchWithRetry fetch retries onRetry)
      = Inl (attempt_error (fetch (nat (retries - 1))))"
    if "0 < retries" "\<forall>j. int j < retries \<longrightarrow> \<not> attempt_ok (fetch j)"
    using that fwr_from_all_fail[of 0 retries fetch onRetry]
    by (simp add: fetchWithRetry_def)
  show ?thesis
    using none first last fwr_positive_budget[of retries fetch onRetry] by blast
qed

theorem fetchWithRetry_result_witness:
  "fst (fetchWithRetry
          (\<lambda>i. if i < 2 then Rejected ''offline'' else Resolved \<lparr>status = 200, body = ''{}''\<rparr>)
          3 False) = Inr \<lparr>status = 200, body = ''{}''\<rparr>
   \<and> fst (fetchWithRetry (\<lambda>i. Resolved \<lparr>status = 503, body = ''busy''\<rparr>) 3 True)
       = Inl (HttpError 503)
   \<and> fst (fetchWithRetry (\<lambda>i. Resolved \<lparr>status = 503, body = ''busy''\<rparr>) 0 True)
       = Inl MaxRetriesExceeded"
  using
    fetchWithRetry_result [of 3
      "\<lambda>i. if i < 2 then Rejected ''offline'' else Resolved \<lparr>status = 200, body = ''{}''\<rparr>"
      False 2 "\<lparr>status = 200, body = ''{}''\<rparr>"]
    fetchWithRetry_result [of 3 "\<lambda>i. Resolved \<lparr>status = 503, body = ''busy''\<rparr>" True 0
      "\<lparr>status = 503, body = ''busy''\<rparr>"]
    fetchWithRetry_result [of 0 "\<lambda>i. Resolved \<lparr>status = 503, body = ''busy''\<rparr>" True 0
      "\<lparr>status = 503, body = ''busy''\<rparr>"]
  by (simp add: ok_def)

text \<open>
  C9, as stated, is false: with the default budget of 3 and a network that is down, the
  helper sleeps 1000 ms and 2000 ms, 3 seconds in all, and does not sleep after the third
  attempt; the sum is not about 7 seconds.
\<close>

theorem backoff_sum_counterexample:
  "sleeps (snd (fetchWithRetry (\<lambda>i. Rejected ''Failed to fetch'' :: string attempt)
                  DEFAULT_RETRIES False)) = [1000, 2000]
   \<and> total_sleep (snd (fetchWithRetry (\<lambda>i. Rejected ''Failed to fetch'' :: string attempt)
                  DEFAULT_RETRIES False)) = 3000
   \<and> total_sleep (snd (fetchWithRetry (\<lambda>i. Rejected ''Failed to fetch'' :: string attempt)
                  DEFAULT_RETRIES False)) \<noteq> 7000"
  by (simp add: fetchWithRetry_def DEFAULT_RETRIES_def total_sleep_def fetchWithRetry_from.simps)

text \<open>
  C9 (amended). \<^verbatim>\<open>fetchWithRetry\<close> waits \<open>2 ^ i\<close> seconds after the failed attempt \<open>i\<close>
  (counted from 0) before it retries, and does not wait after the last attempt. So the
  waits of a run are 1 s, 2 s, 4 s, ... in this order, their sum is at most
  \<open>2 ^ (retries - 1) - 1\<close> seconds, and it is exactly that on a call where every attempt
  fails: for the default budget of 3 the waits are 1 s and 2 s and the worst-case
  wall-clock wait is 3 seconds.
\<close>

theorem fetchWithRetry_backoff:
  "sleeps (snd (fetchWithRetry fetch retries onRetry)) =
     map (\<lambda>i. 2 ^ i * 1000) [0 ..< length (sleeps (snd (fetchWithRetry fetch retries onRetry)))]
   \<and> total_sleep (snd (fetchWithRetry fetch retries onRetry)) \<le> (2 ^ nat (retries - 1) - 1) * 1000
   \<and> (0 < retries \<and> (\<forall>j. int j < retries \<longrightarrow> \<not> attempt_ok (fetch j)) \<longrightarrow>
        sleeps (snd (fetchWithRetry fetch retries onRetry)) = map (\<lambda>i. 2 ^ i * 1000) [0 ..< nat (retries - 1)]
        \<and> total_sleep (snd (fetchWithRetry fetch retries onRetry)) = (2 ^ nat (retries - 1) - 1) * 1000)
   \<and> ((\<forall>j. j < 3 \<longrightarrow> \<not> attempt_ok (fetch j)) \<longrightarrow>
        sleeps (snd (fetchWithRetry fetch DEFAULT_RETRIES onRetry)) = [1000, 2000]
        \<and> total_sleep (snd (fetchWithRetry fetch DEFAULT_RETRIES onRetry)) = 3000)"
proof -
  let ?s = "sleeps (snd (fetchWithRetry fetch retries onRetry))"
  obtain n where n: "?s = map (\<lambda>i. 2 ^ i * 1000) [0 ..< n]" and "n \<le> nat (retries - 1)"
    using sleeps_from_shape[of fetch retries onRetry 0] by (auto simp add: fetchWithRetry_def)
  then have len: "length ?s \<le> nat (retries - 1)" by simp
  have "length ?s = n" by (subst n) simp
  with n have shape: "?s = map (\<lambda>i. 2 ^ i * 1000) [0 ..< length ?s]" by simp
  have "total_sleep (snd (fetchWithRetry fetch retries onRetry)) = (2 ^ length ?s - 1) * 1000"
    unfolding total_sleep_def by (subst shape) (rule sum_backoff)
  then have bound: "total_sleep (snd (fetchWithRetry fetch retries onRetry)) \<le> (2 ^ nat (retries - 1) - 1) * 1000"
    using sum_backoff_mono[OF len] by simp
  have allfail: "sleeps (snd (fetchWithRetry fetch r onRetry)) = map (\<lambda>i. 2 ^ i * 1000) [0 ..< nat (r - 1)]
        \<and> total_sleep (snd (fetchWithRetry fetch r onRetry)) = (2 ^ nat (r - 1) - 1) * 1000"
    if "0 < r" "\<forall>j. int j < r \<longrightarrow> \<not> attempt_ok (fetch j)" for r
  proof -
    have "sleeps (snd (fetchWithRetry fetch r onRetry)) = map (\<lambda>i. 2 ^ i * 1000) [0 ..< nat (r - 1)]"
      using that sleeps_from_all_fail[of 0 r fetch onRetry] by (simp add: fetchWithRetry_def)
    then show ?thesis by (simp add: total_sleep_def sum_backoff)
  qed
  have three: "sleeps (snd (fetchWithRetry fetch DEFAULT_RETRIES onRetry)) = [1000, 2000]
        \<and> total_sleep (snd (fetchWithRetry fetch DEFAULT_RETRIES onRetry)) = 3000"
    if "\<forall>j. j < 3 \<longrightarrow> \<not> attempt_ok (fetch j)"
  proof -
    have "\<forall>j. int j < DEFAULT_RETRIES \<longrightarrow> \<not> attempt_ok (fetch j)"
      using that by (simp add: DEFAULT_RETRIES_def)
    from allfail[OF _ this] have "sleeps (snd (fetchWithRetry fetch DEFAULT_RETRIES onRetry)) = map (\<lambda>i. 2 ^ i * 1000) [0 ..< 2]"
      and "total_sleep (snd (fetchWithRetry fetch DEFAULT_RETRIES onRetry)) = (2 ^ 2 - 1) * 1000"
      by (simp_all add: DEFAULT_RETRIES_def)
    then show ?thesis by (simp add: upt_rec)
  qed
  show ?thesis using shape bound allfail three by blast
qed

theorem fetchWithRetry_backoff_witness:
  "(0::int) < 4
   \<and> sleeps (snd (fetchWithRetry (\<lambda>i. Resolved \<lparr>status = 429, body = ''slow down''\<rparr>) 4 True))
       = [1000, 2000, 4000]
   \<and> total_sleep (snd (fetchWithRetry (\<lambda>i. Resolved \<lparr>status = 429, body = ''slow down''\<rparr>) 4 True))
       = 7000
   \<and> total_sleep (snd (fetchWithRetry (\<lambda>i. Resolved \<lparr>status = 429, body = ''slow down''\<rparr>)
                         DEFAULT_RETRIES True)) = 3000"
  using fetchWithRetry_backoff [of "\<lambda>i. Resolved \<lparr>status = 429, body = ''slow down''\<rparr>" 4 True]
  by (simp add: ok_def upt_rec)


section \<open>Properties of the balance acquisition\<close>

lemma mset_insert_sorted: "mset (insert_sorted c x ys) = add_mset x (mset ys)"
  by (induction ys) auto

lemma mset_array_sort: "mset (array_sort c xs) = mset xs"
  by (induction xs) (simp_all add: array_sort_def mset_insert_sorted)

lemma set_array_sort: "set (array_sort c xs) = set xs"
  using mset_array_sort[of c xs] by (metis set_mset_mset)

lemma array_sort_Nil: "array_sort c [] = []"
  by (simp add: array_sort_def)

lemma in_filter_Boolean: "t \<in> set (filter_Boolean (map f xs)) \<longleftrightarrow> (\<exists>x\<in>set xs. f x = Some t)"
  by (induction xs) (auto simp: filter_Boolean_def)

lemma zapperProcess_Some:
  "zapperProcess fp n = Some t \<longleftrightarrow>
     (Number_positive fp (ZapperToken.balance n) \<or> Number_positive fp (balanceRaw n)) \<and>
     t = \<lparr> Token.contractAddress = ZapperToken.tokenAddress n,
           symbol = or_else (ZapperToken.symbol n) ''UNKNOWN'',
           name = or_else (ZapperToken.name n) ''Unknown Token'',
           balance = balanceRaw n,
           balanceFormatted = ZapperToken.balance n \<rparr>"
  by (auto simp: zapperProcess_def)

lemma fetchZapperTokens_Inr:
  "fetchZapperTokens fp fz = Inr ts \<Longrightarrow> t \<in> set ts \<Longrightarrow>
     Number_positive fp (balanceFormatted t) \<or> Number_positive fp (Token.balance t)"
  by (auto simp: fetchZapperTokens_def in_filter_Boolean zapperProcess_Some
      split: sum.splits option.splits)

lemma fetchAlchemyPortfolioTokens_Inr:
  "fetchAlchemyPortfolioTokens fmt fa = Inr ts \<Longrightarrow> t \<in> set ts \<Longrightarrow> parseInt16_positive (Token.balance t)"
  by (auto simp: fetchAlchemyPortfolioTokens_def alchemyProcess_def alchemyKeep_def split: sum.splits)

lemma withMetadata_balance:
  "t \<in> set (withMetadata fm k bs) \<Longrightarrow> \<exists>b\<in>set bs. BurnerToken.balance t = tokenBalance b"
  by (induction bs arbitrary: k) (auto split: option.splits)

lemma fetchAllTokens_try_Inr:
  "fetchAllTokens_try key fb fm = Inr ts \<Longrightarrow> t \<in> set ts \<Longrightarrow> parseInt16_positive (BurnerToken.balance t)"
  by (auto simp: fetchAllTokens_try_def set_array_sort Let_def
      split: sum.splits option.splits dest!: withMetadata_balance)

lemma GET_tokens_cases:
  assumes "GET key fp fmt fz fa address zk ak npak = (TokensResponse ts source, called)"
  shows "(source = ''zapper'' \<and> (\<exists>zs. fetchZapperTokens fp fz = Inr zs \<and> zs \<noteq> [] \<and> ts = sortBySymbol key zs))
       \<or> (source = ''alchemy-portfolio'' \<and> (\<exists>as. fetchAlchemyPortfolioTokens fmt fa = Inr as \<and> as \<noteq> [] \<and> ts = sortBySymbol key as))
       \<or> (source = ''none'' \<and> ts = [])"
  using assms
  by (auto simp: GET_def GET_alchemy_def Let_def sortBySymbol_def array_sort_Nil
      split: if_splits sum.splits)

lemma fetchZapperTokens_edges:
  assumes "fst (fetchWithRetry fetchZapper DEFAULT_RETRIES False) = Inr response"
    and "body response = Some json" and "errors json = None"
    and "portfolioV2 json = Some (Some edges)"
  shows "fetchZapperTokens floatPositive fetchZapper
           = Inr (filter_Boolean (map (zapperProcess floatPositive) edges))"
  using assms by (simp add: fetchZapperTokens_def)

text \<open>
  C3, as stated, is false on the Zapper path: the route keeps a token when its formatted
  balance or its raw balance is positive, so a node with the formatted balance 1 and the
  raw balance 0 is in the produced list, with the raw balance 0.
\<close>

theorem positive_balance_counterexample:
  "fetchZapperTokens (\<lambda>s. False)
     (\<lambda>i. Resolved \<lparr>status = 200, body = Some \<lparr>errors = None, portfolioV2 = Some (Some
        [\<lparr>ZapperToken.symbol = ''USDC'', tokenAddress = ''0xA1'', balance = ''1'',
          balanceRaw = ''0'', name = ''USD Coin''\<rparr>])\<rparr>\<rparr>)
   = Inr [\<lparr>Token.contractAddress = ''0xA1'', symbol = ''USDC'', name = ''USD Coin'',
           balance = ''0'', balanceFormatted = ''1''\<rparr>]"
  by code_simp

text \<open>
  C3 (amended). Every token in the list that the Alchemy path of the server route
  produces, and every token in the list that the client's \<^verbatim>\<open>fetchAllTokens\<close> produces, has
  a raw balance that \<^verbatim>\<open>parseInt(..., 16)\<close> reads as a number greater than zero: the tokens
  whose reported hexadecimal balance is zero are filtered out. Every token in the list that
  the Zapper path produces has a formatted balance or a raw balance that \<^verbatim>\<open>Number\<close> reads
  as greater than zero: a node is filtered out when neither is. The same holds for the
  list in the response of the handler, by the source it reports.
\<close>

theorem listed_tokens_have_positive_balance:
  "(fetchAlchemyPortfolioTokens formatBalance fetchAlchemy = Inr alchemyTokens \<longrightarrow>
      (\<forall>t \<in> set alchemyTokens. parseInt16_positive (Token.balance t)))
   \<and> (fetchZapperTokens floatPositive fetchZapper = Inr zapperTokens \<longrightarrow>
      (\<forall>t \<in> set zapperTokens.
          Number_positive floatPositive (balanceFormatted t)
          \<or> Number_positive floatPositive (Token.balance t)))
   \<and> (GET collationKey floatPositive formatBalance fetchZapper fetchAlchemy address
          ZAPPER_API_KEY ALCHEMY_API_KEY NEXT_PUBLIC_ALCHEMY_API_KEY
        = (TokensResponse allTokens source, called) \<longrightarrow>
      (\<forall>t \<in> set allTokens.
          (source = ''alchemy-portfolio'' \<and> parseInt16_positive (Token.balance t))
          \<or> (source = ''zapper''
              \<and> (Number_positive floatPositive (balanceFormatted t)
                  \<or> Number_positive floatPositive (Token.balance t)))))
   \<and> (fetchAllTokens_try collationKey fetchBalances fetchMetadata = Inr sortedTokens \<longrightarrow>
      (\<forall>t \<in> set sortedTokens. parseInt16_positive (BurnerToken.balance t)))"
proof -
  have handler: "(source = ''alchemy-portfolio'' \<and> parseInt16_positive (Token.balance t))
          \<or> (source = ''zapper''
              \<and> (Number_positive floatPositive (balanceFormatted t)
                  \<or> Number_positive floatPositive (Token.balance t)))"
    if get: "GET collationKey floatPositive formatBalance fetchZapper fetchAlchemy address
          ZAPPER_API_KEY ALCHEMY_API_KEY NEXT_PUBLIC_ALCHEMY_API_KEY
        = (TokensResponse allTokens source, called)" and t: "t \<in> set allTokens" for t
  proof -
    from GET_tokens_cases[OF get] consider
      (zapper) zs where "source = ''zapper''" "fetchZapperTokens floatPositive fetchZapper = Inr zs"
        "allTokens = sortBySymbol collationKey zs"
      | (alchemy) as where "source = ''alchemy-portfolio''"
        "fetchAlchemyPortfolioTokens formatBalance fetchAlchemy = Inr as" "allTokens = sortBySymbol collationKey as"
      | (none) "allTokens = []"
      by blast
    then show ?thesis
    proof cases
      case zapper
      with t have "t \<in> set zs" by (simp add: sortBySymbol_def set_array_sort)
      with zapper show ?thesis using fetchZapperTokens_Inr by blast
    next
      case alchemy
      with t have "t \<in> set as" by (simp add: sortBySymbol_def set_array_sort)
      with alchemy show ?thesis using fetchAlchemyPortfolioTokens_Inr by blast
    next
      case none
      with t show ?thesis by simp
    qed
  qed
  show ?thesis
    using handler fetchAlchemyPortfolioTokens_Inr fetchZapperTokens_Inr fetchAllTokens_try_Inr
    by blast
qed

theorem listed_tokens_have_positive_balance_witness:
  "fetchAlchemyPortfolioTokens (\<lambda>b d. ''0.000016'')
       (\<lambda>p i. Resolved \<lparr>status = 200, body = Some \<lparr>AlchemyPage.error = None,
           tokens = [\<lparr>AlchemyPortfolioToken.tokenAddress = ''0xA1'', tokenBalance = ''0x0'',
                      tokenMetadata = Some \<lparr>AlchemyMetadata.decimals = Some 18,
                                             name = ''Degen'', symbol = ''DEGEN''\<rparr>\<rparr>,
                     \<lparr>AlchemyPortfolioToken.tokenAddress = ''0xB2'', tokenBalance = ''0x10'',
                      tokenMetadata = Some \<lparr>AlchemyMetadata.decimals = Some 6,
                                             name = ''USD Coin'', symbol = ''USDC''\<rparr>\<rparr>],
           pageKey = None\<rparr>\<rparr>)
     = Inr [\<lparr>Token.contractAddress = ''0xB2'', symbol = ''USDC'', name = ''USD Coin'',
             balance = ''0x10'', balanceFormatted = ''0.000016''\<rparr>]
   \<and> parseInt16_positive ''0x10''
   \<and> \<not> parseInt16_positive ''0x0''
   \<and> fetchZapperTokens (\<lambda>s. False)
       (\<lambda>i. Resolved \<lparr>status = 200, body = Some \<lparr>errors = None, portfolioV2 = Some (Some
          [\<lparr>ZapperToken.symbol = ''DEGEN'', tokenAddress = ''0xA1'', balance = ''0'',
            balanceRaw = ''0'', name = ''Degen''\<rparr>,
           \<lparr>ZapperToken.symbol = ''USDC'', tokenAddress = ''0xB2'', balance = ''0.000016'',
            balanceRaw = ''16'', name = ''USD Coin''\<rparr>])\<rparr>\<rparr>)
     = Inr [\<lparr>Token.contractAddress = ''0xB2'', symbol = ''USDC'', name = ''USD Coin'',
             balance = ''16'', balanceFormatted = ''0.000016''\<rparr>]
   \<and> (Number_positive (\<lambda>s. False) ''0.000016'' \<or> Number_positive (\<lambda>s. False) ''16'')
   \<and> GET rootCollationKey (\<lambda>s. False) (\<lambda>b d. ''0.000016'')
       (\<lambda>i. Resolved \<lparr>status = 200, body = Some \<lparr>errors = None, portfolioV2 = Some (Some
          [\<lparr>ZapperToken.symbol = ''DEGEN'', tokenAddress = ''0xA1'', balance = ''0'',
            balanceRaw = ''0'', name = ''Degen''\<rparr>,
           \<lparr>ZapperToken.symbol = ''USDC'', tokenAddress = ''0xB2'', balance = ''0.000016'',
            balanceRaw = ''16'', name = ''USD Coin''\<rparr>])\<rparr>\<rparr>)
       (\<lambda>p i. Rejected ''not called'') ''0x1234'' (Some ''zapper-key'') None None
     = (TokensResponse
          [\<lparr>Token.contractAddress = ''0xB2'', symbol = ''USDC'', name = ''USD Coin'',
             balance = ''16'', balanceFormatted = ''0.000016''\<rparr>] ''zapper'',
        [Zapper])
   \<and> fetchAllTokens_try rootCollationKey
       (\<lambda>i. Resolved \<lparr>status = 200, body = Some \<lparr>BalancesData.error = None, tokenBalances =
          [\<lparr>TokenBalance.contractAddress = ''0xA1'', tokenBalance = ''0x0''\<rparr>,
           \<lparr>TokenBalance.contractAddress = ''0xB2'', tokenBalance = ''0x10''\<rparr>]\<rparr>\<rparr>)
       (\<lambda>k i. Resolved \<lparr>status = 200, body = Some (Some
          \<lparr>TokenMetadata.name = ''Example'', symbol = ''EXM'', decimals = Some 6, logo = None\<rparr>)\<rparr>)
     = Inr [\<lparr>BurnerToken.contractAddress = ''0xB2'', name = ''Example'', symbol = ''EXM'',
             balance = ''0x10'', decimals = 6, logo = None, isPriority = Some False\<rparr>]"
proof -
  have alchemy: "fetchAlchemyPortfolioTokens (\<lambda>b d. ''0.000016'')
       (\<lambda>p i. Resolved \<lparr>status = 200, body = Some \<lparr>AlchemyPage.error = None,
           tokens = [\<lparr>AlchemyPortfolioToken.tokenAddress = ''0xA1'', tokenBalance = ''0x0'',
                      tokenMetadata = Some \<lparr>AlchemyMetadata.decimals = Some 18,
                                             name = ''Degen'', symbol = ''DEGEN''\<rparr>\<rparr>,
                     \<lparr>AlchemyPortfolioToken.tokenAddress = ''0xB2'', tokenBalance = ''0x10'',
                      tokenMetadata = Some \<lparr>AlchemyMetadata.decimals = Some 6,
                                             name = ''USD Coin'', symbol = ''USDC''\<rparr>\<rparr>],
           pageKey = None\<rparr>\<rparr>)
     = Inr [\<lparr>Token.contractAddress = ''0xB2'', symbol = ''USDC'', name = ''USD Coin'',
             balance = ''0x10'', balanceFormatted = ''0.000016''\<rparr>]"
    by code_simp
  have zero: "\<not> parseInt16_positive ''0x0''"
    by code_simp
  have zapper: "fetchZapperTokens (\<lambda>s. False)
       (\<lambda>i. Resolved \<lparr>status = 200, body = Some \<lparr>errors = None, portfolioV2 = Some (Some
          [\<lparr>ZapperToken.symbol = ''DEGEN'', tokenAddress = ''0xA1'', balance = ''0'',
            balanceRaw = ''0'', name = ''Degen''\<rparr>,
           \<lparr>ZapperToken.symbol = ''USDC'', tokenAddress = ''0xB2'', balance = ''0.000016'',
            balanceRaw = ''16'', name = ''USD Coin''\<rparr>])\<rparr>\<rparr>)
     = Inr [\<lparr>Token.contractAddress = ''0xB2'', symbol = ''USDC'', name = ''USD Coin'',
             balance = ''16'', balanceFormatted = ''0.000016''\<rparr>]"
    by code_simp
  have handler: "GET rootCollationKey (\<lambda>s. False) (\<lambda>b d. ''0.000016'')
       (\<lambda>i. Resolved \<lparr>status = 200, body = Some \<lparr>errors = None, portfolioV2 = Some (Some
          [\<lparr>ZapperToken.symbol = ''DEGEN'', tokenAddress = ''0xA1'', balance = ''0'',
            balanceRaw = ''0'', name = ''Degen''\<rparr>,
           \<lparr>ZapperToken.symbol = ''USDC'', tokenAddress = ''0xB2'', balance = ''0.000016'',
            balanceRaw = ''16'', name = ''USD Coin''\<rparr>])\<rparr>\<rparr>)
       (\<lambda>p i. Rejected ''not called'') ''0x1234'' (Some ''zapper-key'') None None
     = (TokensResponse
          [\<lparr>Token.contractAddress = ''0xB2'', symbol = ''USDC'', name = ''USD Coin'',
             balance = ''16'', balanceFormatted = ''0.000016''\<rparr>] ''zapper'',
        [Zapper])"
    by code_simp
  have client: "fetchAllTokens_try rootCollationKey
       (\<lambda>i. Resolved \<lparr>status = 200, body = Some \<lparr>BalancesData.error = None, tokenBalances =
          [\<lparr>TokenBalance.contractAddress = ''0xA1'', tokenBalance = ''0x0''\<rparr>,
           \<lparr>TokenBalance.contractAddress = ''0xB2'', tokenBalance = ''0x10''\<rparr>]\<rparr>\<rparr>)
       (\<lambda>k i. Resolved \<lparr>status = 200, body = Some (Some
          \<lparr>TokenMetadata.name = ''Example'', symbol = ''EXM'', decimals = Some 6, logo = None\<rparr>)\<rparr>)
     = Inr [\<lparr>BurnerToken.contractAddress = ''0xB2'', name = ''Example'', symbol = ''EXM'',
             balance = ''0x10'', decimals = 6, logo = None, isPriority = Some False\<rparr>]"
    by code_simp
  show ?thesis
    using alchemy zero zapper handler client
      listed_tokens_have_positive_balance [THEN conjunct1, THEN mp, OF alchemy]
      listed_tokens_have_positive_balance [THEN conjunct2, THEN conjunct1, THEN mp, OF zapper]
      listed_tokens_have_positive_balance
        [THEN conjunct2, THEN conjunct2, THEN conjunct1, THEN mp, OF handler]
      listed_tokens_have_positive_balance
        [THEN conjunct2, THEN conjunct2, THEN conjunct2, THEN mp, OF client]
    by simp
qed


lemma fetchWithRetry_first_ok:
  "0 < retries \<Longrightarrow> fetch 0 = Resolved response \<Longrightarrow> ok response \<Longrightarrow>
   fst (fetchWithRetry fetch retries onRetry) = Inr response"
  by (simp add: fetchWithRetry_def fwr_from_ok)

lemma fetchAlchemyPages_collect:
  assumes "c \<le> k" and "k < maxPages"
    and "\<And>p. c \<le> p \<Longrightarrow> p \<le> k \<Longrightarrow>
           \<exists>response. fst (fetchWithRetry (fetch p) DEFAULT_RETRIES False) = Inr response
             \<and> body response = Some (pages p) \<and> AlchemyPage.error (pages p) = None"
    and "\<And>p. c \<le> p \<Longrightarrow> p < k \<Longrightarrow> truthy (pageKey (pages p))"
    and "k + 1 = maxPages \<or> \<not> truthy (pageKey (pages k))"
  shows "fetchAlchemyPages fetch c collected
           = Inr (collected @ concat (map (\<lambda>p. AlchemyPage.tokens (pages p)) [c ..< k + 1]))"
  using assms
proof (induction "k - c" arbitrary: c collected)
  case 0
  then have ck: "c = k" by simp
  from 0(4)[of k] ck obtain response where
    "fst (fetchWithRetry (fetch k) DEFAULT_RETRIES False) = Inr response"
    "body response = Some (pages k)" "AlchemyPage.error (pages k) = None"
    by auto
  then show ?case
    using 0(6) ck by (subst fetchAlchemyPages.simps) auto
next
  case (Suc n)
  then have ck: "c < k" by simp
  from Suc.prems(3)[of c] ck obtain response where response:
    "fst (fetchWithRetry (fetch c) DEFAULT_RETRIES False) = Inr response"
    "body response = Some (pages c)" "AlchemyPage.error (pages c) = None"
    by auto
  have more: "truthy (pageKey (pages c))" and room: "\<not> c + 1 \<ge> maxPages"
    using Suc.prems(4)[of c] Suc.prems(2) ck by auto
  have ih: "fetchAlchemyPages fetch (c + 1) (collected @ AlchemyPage.tokens (pages c))
      = Inr ((collected @ AlchemyPage.tokens (pages c))
              @ concat (map (\<lambda>p. AlchemyPage.tokens (pages p)) [c + 1 ..< k + 1]))"
    using Suc.hyps(2) ck Suc.prems
    by (intro Suc.hyps(1)) auto
  have upt: "[c ..< k + 1] = c # [c + 1 ..< k + 1]"
    using ck by (simp add: upt_conv_Cons)
  have step: "fetchAlchemyPages fetch c collected
      = fetchAlchemyPages fetch (c + 1) (collected @ AlchemyPage.tokens (pages c))"
    using response more room by (subst fetchAlchemyPages.simps) simp
  show ?case
    unfolding step ih upt by (simp del: upt_Suc)
qed

text \<open>
  C4, as stated, is false on the Alchemy path: a token with a nonzero balance and a token
  address, whose metadata has \<^verbatim>\<open>decimals: null\<close>, is dropped by the filter, so the acquired
  list has no entry for it.
\<close>

theorem raw_balance_entry_counterexample:
  "parseInt16_positive ''0x1''
   \<and> fetchAlchemyPortfolioTokens (\<lambda>b d. ''0'')
       (\<lambda>p i. Resolved \<lparr>status = 200, body = Some \<lparr>AlchemyPage.error = None,
           tokens = [\<lparr>AlchemyPortfolioToken.tokenAddress = ''0xabc'', tokenBalance = ''0x1'',
                      tokenMetadata = Some \<lparr>AlchemyMetadata.decimals = None,
                                             name = ''Mystery'', symbol = ''MYS''\<rparr>\<rparr>],
           pageKey = None\<rparr>\<rparr>) = Inr []"
  by code_simp

text \<open>
  C4 (amended). For every token that Zapper returns with a formatted or raw balance greater
  than zero, and for every token that Alchemy returns with a balance greater than zero, a
  non-empty token address and decimals that are not \<^verbatim>\<open>null\<close>, the acquired list contains an
  entry whose contract address is the token's address and whose \<^verbatim>\<open>balance\<close> field is exactly
  the provider's raw balance string (\<^verbatim>\<open>balanceRaw\<close> from Zapper, the hexadecimal
  \<^verbatim>\<open>tokenBalance\<close> from Alchemy), passed through as the string it is. The tokens that Zapper
  returns are the nodes of the edges of the response that the retry helper hands over.
  The tokens that Alchemy returns are the tokens of the pages \<open>0\<close> to \<open>k\<close> of its answer,
  each the body of the response to the request for that page: every page before the last
  carries a continuation key, and the last page carries none or is the tenth.
\<close>

theorem acquired_list_keeps_raw_balance:
  "(fst (fetchWithRetry fetchZapper DEFAULT_RETRIES False) = Inr response
      \<and> body response = Some json \<and> errors json = None \<and> portfolioV2 json = Some (Some edges)
      \<and> node \<in> set edges
      \<and> (Number_positive floatPositive (ZapperToken.balance node)
          \<or> Number_positive floatPositive (balanceRaw node))
     \<longrightarrow> (\<exists>acquired. fetchZapperTokens floatPositive fetchZapper = Inr acquired
           \<and> (\<exists>t \<in> set acquired. Token.contractAddress t = ZapperToken.tokenAddress node
                                  \<and> Token.balance t = balanceRaw node)))
   \<and> (k < maxPages
      \<and> (\<forall>p. p \<le> k \<longrightarrow>
            (\<exists>answer. fst (fetchWithRetry (fetchAlchemy p) DEFAULT_RETRIES False) = Inr answer
               \<and> body answer = Some (pages p) \<and> AlchemyPage.error (pages p) = None))
      \<and> (\<forall>p. p < k \<longrightarrow> truthy (pageKey (pages p)))
      \<and> (k + 1 = maxPages \<or> \<not> truthy (pageKey (pages k)))
      \<and> q \<le> k
      \<and> token \<in> set (AlchemyPage.tokens (pages q))
      \<and> parseInt16_positive (AlchemyPortfolioToken.tokenBalance token)
      \<and> AlchemyPortfolioToken.tokenAddress token \<noteq> []
      \<and> (\<forall>m. tokenMetadata token = Some m \<longrightarrow> AlchemyMetadata.decimals m \<noteq> None)
     \<longrightarrow> (\<exists>acquired. fetchAlchemyPortfolioTokens formatBalance fetchAlchemy = Inr acquired
           \<and> (\<exists>t \<in> set acquired.
                  Token.contractAddress t = AlchemyPortfolioToken.tokenAddress token
                  \<and> Token.balance t = AlchemyPortfolioToken.tokenBalance token)))"
proof -
  have zapper: "\<exists>acquired. fetchZapperTokens floatPositive fetchZapper = Inr acquired
           \<and> (\<exists>t \<in> set acquired. Token.contractAddress t = ZapperToken.tokenAddress node
                                  \<and> Token.balance t = balanceRaw node)"
    if run: "fst (fetchWithRetry fetchZapper DEFAULT_RETRIES False) = Inr response"
      "body response = Some json" "errors json = None" "portfolioV2 json = Some (Some edges)"
      and node: "node \<in> set edges"
      and pos: "Number_positive floatPositive (ZapperToken.balance node)
          \<or> Number_positive floatPositive (balanceRaw node)"
  proof -
    obtain t where t: "zapperProcess floatPositive node = Some t"
      "Token.contractAddress t = ZapperToken.tokenAddress node" "Token.balance t = balanceRaw node"
      using pos by (simp add: zapperProcess_def)
    with node have "t \<in> set (filter_Boolean (map (zapperProcess floatPositive) edges))"
      unfolding in_filter_Boolean by blast
    with t fetchZapperTokens_edges[OF run, of floatPositive] show ?thesis by blast
  qed
  have alchemy: "\<exists>acquired. fetchAlchemyPortfolioTokens formatBalance fetchAlchemy = Inr acquired
           \<and> (\<exists>t \<in> set acquired.
                  Token.contractAddress t = AlchemyPortfolioToken.tokenAddress token
                  \<and> Token.balance t = AlchemyPortfolioToken.tokenBalance token)"
    if k: "k < maxPages"
      and answers: "\<forall>p. p \<le> k \<longrightarrow>
            (\<exists>answer. fst (fetchWithRetry (fetchAlchemy p) DEFAULT_RETRIES False) = Inr answer
               \<and> body answer = Some (pages p) \<and> AlchemyPage.error (pages p) = None)"
      and keys: "\<forall>p. p < k \<longrightarrow> truthy (pageKey (pages p))"
      and final: "k + 1 = maxPages \<or> \<not> truthy (pageKey (pages k))"
      and q: "q \<le> k" and token: "token \<in> set (AlchemyPage.tokens (pages q))"
      and keep: "parseInt16_positive (AlchemyPortfolioToken.tokenBalance token)"
        "AlchemyPortfolioToken.tokenAddress token \<noteq> []"
        "\<forall>m. tokenMetadata token = Some m \<longrightarrow> AlchemyMetadata.decimals m \<noteq> None"
  proof -
    define collected where
      "collected = concat (map (\<lambda>p. AlchemyPage.tokens (pages p)) [0 ..< k + 1])"
    have pages: "fetchAlchemyPages fetchAlchemy 0 [] = Inr ([] @ collected)"
      unfolding collected_def using k answers keys final
      by (intro fetchAlchemyPages_collect) auto
    have member: "token \<in> set collected"
      unfolding collected_def
      using q token by (auto simp del: upt_Suc intro!: bexI[of _ q])
    have "alchemyKeep token"
      using keep by (simp add: alchemyKeep_def split: option.splits)
    with member have "alchemyProcess formatBalance token
        \<in> set (map (alchemyProcess formatBalance) (filter alchemyKeep collected))"
      by simp
    moreover have "Token.contractAddress (alchemyProcess formatBalance token)
          = AlchemyPortfolioToken.tokenAddress token
        \<and> Token.balance (alchemyProcess formatBalance token)
          = AlchemyPortfolioToken.tokenBalance token"
      by (simp add: alchemyProcess_def)
    moreover have "fetchAlchemyPortfolioTokens formatBalance fetchAlchemy
        = Inr (map (alchemyProcess formatBalance) (filter alchemyKeep collected))"
      using pages by (simp add: fetchAlchemyPortfolioTokens_def)
    ultimately show ?thesis by blast
  qed
  show ?thesis
    using zapper alchemy by blast
qed

theorem acquired_list_keeps_raw_balance_witness:
  "fetchAlchemyPages
       (\<lambda>p i. Resolved \<lparr>status = 200, body = Some (if p = (0::nat) then \<lparr>AlchemyPage.error = None,
        tokens = [\<lparr>AlchemyPortfolioToken.tokenAddress = ''0xA1'', tokenBalance = ''0x0'',
        tokenMetadata = None\<rparr>],
        pageKey = Some ''next''\<rparr>
       else \<lparr>AlchemyPage.error = None,
        tokens = [\<lparr>AlchemyPortfolioToken.tokenAddress = ''0xB2'', tokenBalance = ''0x10'',
        tokenMetadata = Some \<lparr>AlchemyMetadata.decimals = Some 6,
                               name = ''USD Coin'', symbol = ''USDC''\<rparr>\<rparr>],
        pageKey = None\<rparr>)\<rparr>) 0 []
     = Inr [\<lparr>AlchemyPortfolioToken.tokenAddress = ''0xA1'', tokenBalance = ''0x0'',
        tokenMetadata = None\<rparr>,
            \<lparr>AlchemyPortfolioToken.tokenAddress = ''0xB2'', tokenBalance = ''0x10'',
        tokenMetadata = Some \<lparr>AlchemyMetadata.decimals = Some 6,
                               name = ''USD Coin'', symbol = ''USDC''\<rparr>\<rparr>]
   \<and> parseInt16_positive ''0x10''
   \<and> (\<exists>acquired. fetchAlchemyPortfolioTokens (\<lambda>b d. ''0.000016'')
       (\<lambda>p i. Resolved \<lparr>status = 200, body = Some (if p = (0::nat) then \<lparr>AlchemyPage.error = None,
        tokens = [\<lparr>AlchemyPortfolioToken.tokenAddress = ''0xA1'', tokenBalance = ''0x0'',
        tokenMetadata = None\<rparr>],
        pageKey = Some ''next''\<rparr>
       else \<lparr>AlchemyPage.error = None,
        tokens = [\<lparr>AlchemyPortfolioToken.tokenAddress = ''0xB2'', tokenBalance = ''0x10'',
        tokenMetadata = Some \<lparr>AlchemyMetadata.decimals = Some 6,
                               name = ''USD Coin'', symbol = ''USDC''\<rparr>\<rparr>],
        pageKey = None\<rparr>)\<rparr>) = Inr acquired
        \<and> (\<exists>t \<in> set acquired. Token.contractAddress t = ''0xB2'' \<and> Token.balance t = ''0x10''))
   \<and> fst (fetchWithRetry
       (\<lambda>i. Resolved \<lparr>status = 200, body = Some \<lparr>errors = None, portfolioV2 = Some (Some
          [\<lparr>ZapperToken.symbol = ''USDC'', tokenAddress = ''0xB2'', balance = ''0.000016'',
            balanceRaw = ''16'', name = ''USD Coin''\<rparr>])\<rparr>\<rparr>) DEFAULT_RETRIES False)
     = Inr \<lparr>status = 200, body = Some \<lparr>errors = None, portfolioV2 = Some (Some
          [\<lparr>ZapperToken.symbol = ''USDC'', tokenAddress = ''0xB2'', balance = ''0.000016'',
            balanceRaw = ''16'', name = ''USD Coin''\<rparr>])\<rparr>\<rparr>
   \<and> Number_positive (\<lambda>s. False) ''16''
   \<and> (\<exists>acquired. fetchZapperTokens (\<lambda>s. False)
       (\<lambda>i. Resolved \<lparr>status = 200, body = Some \<lparr>errors = None, portfolioV2 = Some (Some
          [\<lparr>ZapperToken.symbol = ''USDC'', tokenAddress = ''0xB2'', balance = ''0.000016'',
            balanceRaw = ''16'', name = ''USD Coin''\<rparr>])\<rparr>\<rparr>) = Inr acquired
        \<and> (\<exists>t \<in> set acquired. Token.contractAddress t = ''0xB2'' \<and> Token.balance t = ''16''))"
proof -
  have pages: "fetchAlchemyPages
       (\<lambda>p i. Resolved \<lparr>status = 200, body = Some (if p = (0::nat) then \<lparr>AlchemyPage.error = None,
        tokens = [\<lparr>AlchemyPortfolioToken.tokenAddress = ''0xA1'', tokenBalance = ''0x0'',
        tokenMetadata = None\<rparr>],
        pageKey = Some ''next''\<rparr>
       else \<lparr>AlchemyPage.error = None,
        tokens = [\<lparr>AlchemyPortfolioToken.tokenAddress = ''0xB2'', tokenBalance = ''0x10'',
        tokenMetadata = Some \<lparr>AlchemyMetadata.decimals = Some 6,
                               name = ''USD Coin'', symbol = ''USDC''\<rparr>\<rparr>],
        pageKey = None\<rparr>)\<rparr>) 0 []
     = Inr [\<lparr>AlchemyPortfolioToken.tokenAddress = ''0xA1'', tokenBalance = ''0x0'',
        tokenMetadata = None\<rparr>,
            \<lparr>AlchemyPortfolioToken.tokenAddress = ''0xB2'', tokenBalance = ''0x10'',
        tokenMetadata = Some \<lparr>AlchemyMetadata.decimals = Some 6,
                               name = ''USD Coin'', symbol = ''USDC''\<rparr>\<rparr>]"
    by code_simp
  have hex: "parseInt16_positive ''0x10''"
    by code_simp
  have first: "fst (fetchWithRetry ((\<lambda>p i. Resolved \<lparr>status = 200, body = Some (if p = (0::nat) then \<lparr>AlchemyPage.error = None,
        tokens = [\<lparr>AlchemyPortfolioToken.tokenAddress = ''0xA1'', tokenBalance = ''0x0'',
        tokenMetadata = None\<rparr>],
        pageKey = Some ''next''\<rparr>
       else \<lparr>AlchemyPage.error = None,
        tokens = [\<lparr>AlchemyPortfolioToken.tokenAddress = ''0xB2'', tokenBalance = ''0x10'',
        tokenMetadata = Some \<lparr>AlchemyMetadata.decimals = Some 6,
                               name = ''USD Coin'', symbol = ''USDC''\<rparr>\<rparr>],
        pageKey = None\<rparr>)\<rparr>) 0) DEFAULT_RETRIES False)
      = Inr \<lparr>status = 200, body = Some ((\<lambda>p. if p = (0::nat) then \<lparr>AlchemyPage.error = None,
        tokens = [\<lparr>AlchemyPortfolioToken.tokenAddress = ''0xA1'', tokenBalance = ''0x0'',
        tokenMetadata = None\<rparr>],
        pageKey = Some ''next''\<rparr>
       else \<lparr>AlchemyPage.error = None,
        tokens = [\<lparr>AlchemyPortfolioToken.tokenAddress = ''0xB2'', tokenBalance = ''0x10'',
        tokenMetadata = Some \<lparr>AlchemyMetadata.decimals = Some 6,
                               name = ''USD Coin'', symbol = ''USDC''\<rparr>\<rparr>],
        pageKey = None\<rparr>) 0)\<rparr>"
    by code_simp
  have second: "fst (fetchWithRetry ((\<lambda>p i. Resolved \<lparr>status = 200, body = Some (if p = (0::nat) then \<lparr>AlchemyPage.error = None,
        tokens = [\<lparr>AlchemyPortfolioToken.tokenAddress = ''0xA1'', tokenBalance = ''0x0'',
        tokenMetadata = None\<rparr>],
        pageKey = Some ''next''\<rparr>
       else \<lparr>AlchemyPage.error = None,
        tokens = [\<lparr>AlchemyPortfolioToken.tokenAddress = ''0xB2'', tokenBalance = ''0x10'',
        tokenMetadata = Some \<lparr>AlchemyMetadata.decimals = Some 6,
                               name = ''USD Coin'', symbol = ''USDC''\<rparr>\<rparr>],
        pageKey = None\<rparr>)\<rparr>) 1) DEFAULT_RETRIES False)
      = Inr \<lparr>status = 200, body = Some ((\<lambda>p. if p = (0::nat) then \<lparr>AlchemyPage.error = None,
        tokens = [\<lparr>AlchemyPortfolioToken.tokenAddress = ''0xA1'', tokenBalance = ''0x0'',
        tokenMetadata = None\<rparr>],
        pageKey = Some ''next''\<rparr>
       else \<lparr>AlchemyPage.error = None,
        tokens = [\<lparr>AlchemyPortfolioToken.tokenAddress = ''0xB2'', tokenBalance = ''0x10'',
        tokenMetadata = Some \<lparr>AlchemyMetadata.decimals = Some 6,
                               name = ''USD Coin'', symbol = ''USDC''\<rparr>\<rparr>],
        pageKey = None\<rparr>) 1)\<rparr>"
    by code_simp
  have answers: "\<exists>answer. fst (fetchWithRetry ((\<lambda>p i. Resolved \<lparr>status = 200, body = Some (if p = (0::nat) then \<lparr>AlchemyPage.error = None,
        tokens = [\<lparr>AlchemyPortfolioToken.tokenAddress = ''0xA1'', tokenBalance = ''0x0'',
        tokenMetadata = None\<rparr>],
        pageKey = Some ''next''\<rparr>
       else \<lparr>AlchemyPage.error = None,
        tokens = [\<lparr>AlchemyPortfolioToken.tokenAddress = ''0xB2'', tokenBalance = ''0x10'',
        tokenMetadata = Some \<lparr>AlchemyMetadata.decimals = Some 6,
                               name = ''USD Coin'', symbol = ''USDC''\<rparr>\<rparr>],
        pageKey = None\<rparr>)\<rparr>) p) DEFAULT_RETRIES False) = Inr answer
      \<and> body answer = Some ((\<lambda>p. if p = (0::nat) then \<lparr>AlchemyPage.error = None,
        tokens = [\<lparr>AlchemyPortfolioToken.tokenAddress = ''0xA1'', tokenBalance = ''0x0'',
        tokenMetadata = None\<rparr>],
        pageKey = Some ''next''\<rparr>
       else \<lparr>AlchemyPage.error = None,
        tokens = [\<lparr>AlchemyPortfolioToken.tokenAddress = ''0xB2'', tokenBalance = ''0x10'',
        tokenMetadata = Some \<lparr>AlchemyMetadata.decimals = Some 6,
                               name = ''USD Coin'', symbol = ''USDC''\<rparr>\<rparr>],
        pageKey = None\<rparr>) p)
      \<and> AlchemyPage.error ((\<lambda>p. if p = (0::nat) then \<lparr>AlchemyPage.error = None,
        tokens = [\<lparr>AlchemyPortfolioToken.tokenAddress = ''0xA1'', tokenBalance = ''0x0'',
        tokenMetadata = None\<rparr>],
        pageKey = Some ''next''\<rparr>
       else \<lparr>AlchemyPage.error = None,
        tokens = [\<lparr>AlchemyPortfolioToken.tokenAddress = ''0xB2'', tokenBalance = ''0x10'',
        tokenMetadata = Some \<lparr>AlchemyMetadata.decimals = Some 6,
                               name = ''USD Coin'', symbol = ''USDC''\<rparr>\<rparr>],
        pageKey = None\<rparr>) p) = None" if "p \<le> 1" for p
  proof -
    from that consider "p = 0" | "p = 1" by linarith
    then show ?thesis
    proof cases
      case 1
      show ?thesis unfolding 1 using first by simp
    next
      case 2
      show ?thesis unfolding 2 using second by simp
    qed
  qed
  have alchemy: "\<exists>acquired. fetchAlchemyPortfolioTokens (\<lambda>b d. ''0.000016'')
       (\<lambda>p i. Resolved \<lparr>status = 200, body = Some (if p = (0::nat) then \<lparr>AlchemyPage.error = None,
        tokens = [\<lparr>AlchemyPortfolioToken.tokenAddress = ''0xA1'', tokenBalance = ''0x0'',
        tokenMetadata = None\<rparr>],
        pageKey = Some ''next''\<rparr>
       else \<lparr>AlchemyPage.error = None,
        tokens = [\<lparr>AlchemyPortfolioToken.tokenAddress = ''0xB2'', tokenBalance = ''0x10'',
        tokenMetadata = Some \<lparr>AlchemyMetadata.decimals = Some 6,
                               name = ''USD Coin'', symbol = ''USDC''\<rparr>\<rparr>],
        pageKey = None\<rparr>)\<rparr>) = Inr acquired
        \<and> (\<exists>t \<in> set acquired. Token.contractAddress t = ''0xB2'' \<and> Token.balance t = ''0x10'')"
    using acquired_list_keeps_raw_balance [where k = 1
        and fetchAlchemy = "(\<lambda>p i. Resolved \<lparr>status = 200, body = Some (if p = (0::nat) then \<lparr>AlchemyPage.error = None,
        tokens = [\<lparr>AlchemyPortfolioToken.tokenAddress = ''0xA1'', tokenBalance = ''0x0'',
        tokenMetadata = None\<rparr>],
        pageKey = Some ''next''\<rparr>
       else \<lparr>AlchemyPage.error = None,
        tokens = [\<lparr>AlchemyPortfolioToken.tokenAddress = ''0xB2'', tokenBalance = ''0x10'',
        tokenMetadata = Some \<lparr>AlchemyMetadata.decimals = Some 6,
                               name = ''USD Coin'', symbol = ''USDC''\<rparr>\<rparr>],
        pageKey = None\<rparr>)\<rparr>)"
        and pages = "(\<lambda>p. if p = (0::nat) then \<lparr>AlchemyPage.error = None,
        tokens = [\<lparr>AlchemyPortfolioToken.tokenAddress = ''0xA1'', tokenBalance = ''0x0'',
        tokenMetadata = None\<rparr>],
        pageKey = Some ''next''\<rparr>
       else \<lparr>AlchemyPage.error = None,
        tokens = [\<lparr>AlchemyPortfolioToken.tokenAddress = ''0xB2'', tokenBalance = ''0x10'',
        tokenMetadata = Some \<lparr>AlchemyMetadata.decimals = Some 6,
                               name = ''USD Coin'', symbol = ''USDC''\<rparr>\<rparr>],
        pageKey = None\<rparr>)"
        and q = 1
        and token = "\<lparr>AlchemyPortfolioToken.tokenAddress = ''0xB2'', tokenBalance = ''0x10'',
        tokenMetadata = Some \<lparr>AlchemyMetadata.decimals = Some 6,
                               name = ''USD Coin'', symbol = ''USDC''\<rparr>\<rparr>"
        and formatBalance = "\<lambda>b d. ''0.000016''", THEN conjunct2, THEN mp]
      answers hex
    by (simp add: maxPages_def truthy_def)
  have response: "fst (fetchWithRetry
       (\<lambda>i. Resolved \<lparr>status = 200, body = Some \<lparr>errors = None, portfolioV2 = Some (Some
          [\<lparr>ZapperToken.symbol = ''USDC'', tokenAddress = ''0xB2'', balance = ''0.000016'',
            balanceRaw = ''16'', name = ''USD Coin''\<rparr>])\<rparr>\<rparr>) DEFAULT_RETRIES False)
     = Inr \<lparr>status = 200, body = Some \<lparr>errors = None, portfolioV2 = Some (Some
          [\<lparr>ZapperToken.symbol = ''USDC'', tokenAddress = ''0xB2'', balance = ''0.000016'',
            balanceRaw = ''16'', name = ''USD Coin''\<rparr>])\<rparr>\<rparr>"
    by code_simp
  have dec: "Number_positive (\<lambda>s. False) ''16''"
    by code_simp
  have zapper: "\<exists>acquired. fetchZapperTokens (\<lambda>s. False)
       (\<lambda>i. Resolved \<lparr>status = 200, body = Some \<lparr>errors = None, portfolioV2 = Some (Some
          [\<lparr>ZapperToken.symbol = ''USDC'', tokenAddress = ''0xB2'', balance = ''0.000016'',
            balanceRaw = ''16'', name = ''USD Coin''\<rparr>])\<rparr>\<rparr>) = Inr acquired
        \<and> (\<exists>t \<in> set acquired. Token.contractAddress t = ''0xB2'' \<and> Token.balance t = ''16'')"
    using acquired_list_keeps_raw_balance [where
        fetchZapper = "\<lambda>i. Resolved \<lparr>status = 200, body = Some \<lparr>errors = None,
          portfolioV2 = Some (Some
          [\<lparr>ZapperToken.symbol = ''USDC'', tokenAddress = ''0xB2'', balance = ''0.000016'',
            balanceRaw = ''16'', name = ''USD Coin''\<rparr>])\<rparr>\<rparr>"
        and response = "\<lparr>status = 200, body = Some \<lparr>errors = None,
          portfolioV2 = Some (Some
          [\<lparr>ZapperToken.symbol = ''USDC'', tokenAddress = ''0xB2'', balance = ''0.000016'',
            balanceRaw = ''16'', name = ''USD Coin''\<rparr>])\<rparr>\<rparr>"
        and json = "\<lparr>errors = None, portfolioV2 = Some (Some
          [\<lparr>ZapperToken.symbol = ''USDC'', tokenAddress = ''0xB2'', balance = ''0.000016'',
            balanceRaw = ''16'', name = ''USD Coin''\<rparr>])\<rparr>"
        and edges = "[\<lparr>ZapperToken.symbol = ''USDC'', tokenAddress = ''0xB2'',
            balance = ''0.000016'', balanceRaw = ''16'', name = ''USD Coin''\<rparr>]"
        and node = "\<lparr>ZapperToken.symbol = ''USDC'', tokenAddress = ''0xB2'',
            balance = ''0.000016'', balanceRaw = ''16'', name = ''USD Coin''\<rparr>"
        and floatPositive = "\<lambda>s. False", THEN conjunct1, THEN mp]
      response dec
    by simp
  show ?thesis
    using pages hex alchemy response dec zapper by blast
qed

section \<open>Properties of the handler\<close>

lemma truthy_Some_nonempty: "truthy (Some (c # cs))"
  by (simp add: truthy_def)

text \<open>
  C2, as stated, is false for the empty address: the handler answers 400 before it reads
  any provider, so with no API key configured the response is not the configuration error
  with status 500, and it reports no source.
\<close>

theorem handler_fallback_counterexample:
  "GET rootCollationKey (\<lambda>s. False) (\<lambda>b d. ''0'') (\<lambda>i. Rejected ''offline'') (\<lambda>p i. Rejected ''offline'')
       '''' None None None
   = (ErrorResponse ''Address is required'' 400, [])"
  by (simp add: GET_def)

text \<open>
  C2 (amended). For every non-empty address: when a Zapper key is configured the handler
  calls Zapper first; it calls Alchemy exactly when an Alchemy key is configured and Zapper
  is not configured, throws or yields zero results; when neither key is configured it
  returns the configuration error with status 500 and calls no provider; in every other
  case the response carries a token list and the source that produced it:
  \<^verbatim>\<open>zapper\<close> with the sorted Zapper list, \<^verbatim>\<open>alchemy-portfolio\<close> with the sorted Alchemy
  list, or \<^verbatim>\<open>none\<close> with the empty list. In particular, when Zapper fails and Alchemy
  returns a non-empty list, the response has the source \<^verbatim>\<open>alchemy-portfolio\<close> and those
  tokens, sorted by symbol.
\<close>

theorem handler_fallback:
  assumes "address \<noteq> []"
    and "alchemyApiKey = (if truthy ALCHEMY_API_KEY then ALCHEMY_API_KEY
                          else NEXT_PUBLIC_ALCHEMY_API_KEY)"
    and "GET collationKey floatPositive formatBalance fetchZapper fetchAlchemy address
           ZAPPER_API_KEY ALCHEMY_API_KEY NEXT_PUBLIC_ALCHEMY_API_KEY = (response, called)"
  shows
    "(truthy ZAPPER_API_KEY \<longrightarrow> take 1 called = [Zapper])
     \<and> (\<not> truthy ZAPPER_API_KEY \<longrightarrow> Zapper \<notin> set called)
     \<and> (AlchemyPortfolio \<in> set called \<longleftrightarrow>
          truthy alchemyApiKey
          \<and> (\<not> truthy ZAPPER_API_KEY
              \<or> fetchZapperTokens floatPositive fetchZapper = Inr []
              \<or> (\<exists>e. fetchZapperTokens floatPositive fetchZapper = Inl e)))
     \<and> (\<not> truthy ZAPPER_API_KEY \<and> \<not> truthy alchemyApiKey \<longrightarrow>
          response = ErrorResponse
            ''No API keys configured. Please set ZAPPER_API_KEY or ALCHEMY_API_KEY'' 500
          \<and> called = [])
     \<and> (truthy ZAPPER_API_KEY \<or> truthy alchemyApiKey \<longrightarrow>
          (\<exists>zapperTokens. response = TokensResponse (sortBySymbol collationKey zapperTokens) ''zapper''
              \<and> truthy ZAPPER_API_KEY
              \<and> fetchZapperTokens floatPositive fetchZapper = Inr zapperTokens
              \<and> zapperTokens \<noteq> [])
          \<or> (\<exists>alchemyTokens.
                response = TokensResponse (sortBySymbol collationKey alchemyTokens) ''alchemy-portfolio''
              \<and> truthy alchemyApiKey
              \<and> fetchAlchemyPortfolioTokens formatBalance fetchAlchemy = Inr alchemyTokens
              \<and> alchemyTokens \<noteq> [])
          \<or> response = TokensResponse [] ''none'')
     \<and> (truthy ZAPPER_API_KEY
          \<and> (\<exists>e. fetchZapperTokens floatPositive fetchZapper = Inl e)
          \<and> truthy alchemyApiKey
          \<and> fetchAlchemyPortfolioTokens formatBalance fetchAlchemy = Inr fromAlchemy
          \<and> fromAlchemy \<noteq> [] \<longrightarrow>
          response = TokensResponse (sortBySymbol collationKey fromAlchemy) ''alchemy-portfolio''
          \<and> mset (sortBySymbol collationKey fromAlchemy) = mset fromAlchemy
          \<and> called = [Zapper, AlchemyPortfolio])"
proof -
  note defs = GET_def GET_alchemy_def Let_def sortBySymbol_def array_sort_Nil
  have first: "truthy ZAPPER_API_KEY \<longrightarrow> take 1 called = [Zapper]"
    using assms by (auto simp: defs split: if_splits sum.splits)
  have unconfigured: "\<not> truthy ZAPPER_API_KEY \<longrightarrow> Zapper \<notin> set called"
    using assms by (auto simp: defs split: if_splits sum.splits)
  have second: "AlchemyPortfolio \<in> set called \<longleftrightarrow>
          truthy alchemyApiKey
          \<and> (\<not> truthy ZAPPER_API_KEY
              \<or> fetchZapperTokens floatPositive fetchZapper = Inr []
              \<or> (\<exists>e. fetchZapperTokens floatPositive fetchZapper = Inl e))"
    using assms by (auto simp: defs split: if_splits sum.splits)
  have nokeys: "\<not> truthy ZAPPER_API_KEY \<and> \<not> truthy alchemyApiKey \<longrightarrow>
          response = ErrorResponse
            ''No API keys configured. Please set ZAPPER_API_KEY or ALCHEMY_API_KEY'' 500
          \<and> called = []"
    using assms by (auto simp: defs split: if_splits sum.splits)
  have reported: "truthy ZAPPER_API_KEY \<or> truthy alchemyApiKey \<longrightarrow>
          (\<exists>zapperTokens. response = TokensResponse (sortBySymbol collationKey zapperTokens) ''zapper''
              \<and> truthy ZAPPER_API_KEY
              \<and> fetchZapperTokens floatPositive fetchZapper = Inr zapperTokens
              \<and> zapperTokens \<noteq> [])
          \<or> (\<exists>alchemyTokens.
                response = TokensResponse (sortBySymbol collationKey alchemyTokens) ''alchemy-portfolio''
              \<and> truthy alchemyApiKey
              \<and> fetchAlchemyPortfolioTokens formatBalance fetchAlchemy = Inr alchemyTokens
              \<and> alchemyTokens \<noteq> [])
          \<or> response = TokensResponse [] ''none''"
    using assms by (auto simp: defs split: if_splits sum.splits)
  have scenario: "truthy ZAPPER_API_KEY
          \<and> (\<exists>e. fetchZapperTokens floatPositive fetchZapper = Inl e)
          \<and> truthy alchemyApiKey
          \<and> fetchAlchemyPortfolioTokens formatBalance fetchAlchemy = Inr fromAlchemy
          \<and> fromAlchemy \<noteq> [] \<longrightarrow>
          response = TokensResponse (sortBySymbol collationKey fromAlchemy) ''alchemy-portfolio''
          \<and> mset (sortBySymbol collationKey fromAlchemy) = mset fromAlchemy
          \<and> called = [Zapper, AlchemyPortfolio]"
    using assms by (auto simp: defs mset_array_sort split: if_splits sum.splits)
  show ?thesis
    using first unconfigured second nokeys reported scenario by blast
qed

theorem handler_fallback_witness:
  "''0x1234'' \<noteq> []
   \<and> truthy (Some ''zapper-key'') \<and> truthy (Some ''alchemy-key'')
   \<and> fetchZapperTokens (\<lambda>s. False) (\<lambda>i. Rejected ''fetch failed'') = Inl (NetworkError ''fetch failed'')
   \<and> GET rootCollationKey (\<lambda>s. False) (\<lambda>b d. ''0.000016'') (\<lambda>i. Rejected ''fetch failed'')
       (\<lambda>p i. Resolved \<lparr>status = 200, body = Some \<lparr>AlchemyPage.error = None,
           tokens = [\<lparr>AlchemyPortfolioToken.tokenAddress = ''0xB2'', tokenBalance = ''0x10'',
                      tokenMetadata = Some \<lparr>AlchemyMetadata.decimals = Some 6,
                                             name = ''USD Coin'', symbol = ''USDC''\<rparr>\<rparr>],
           pageKey = None\<rparr>\<rparr>)
       ''0x1234'' (Some ''zapper-key'') None (Some ''alchemy-key'')
     = (TokensResponse
          [\<lparr>Token.contractAddress = ''0xB2'', symbol = ''USDC'', name = ''USD Coin'',
             balance = ''0x10'', balanceFormatted = ''0.000016''\<rparr>]
          ''alchemy-portfolio'',
        [Zapper, AlchemyPortfolio])
   \<and> take 1 [Zapper, AlchemyPortfolio] = [Zapper]
   \<and> AlchemyPortfolio \<in> set [Zapper, AlchemyPortfolio]
   \<and> \<not> truthy None \<and> \<not> truthy (Some '''')
   \<and> GET rootCollationKey (\<lambda>s. False) (\<lambda>b d. ''0.000016'') (\<lambda>i. Rejected ''fetch failed'')
       (\<lambda>p i. Rejected ''fetch failed'') ''0x1234'' None (Some '''') None
     = (ErrorResponse
          ''No API keys configured. Please set ZAPPER_API_KEY or ALCHEMY_API_KEY'' 500, [])"
proof -
  have zapper: "fetchZapperTokens (\<lambda>s. False) (\<lambda>i. Rejected ''fetch failed'')
      = Inl (NetworkError ''fetch failed'')"
    by code_simp
  have run: "GET rootCollationKey (\<lambda>s. False) (\<lambda>b d. ''0.000016'') (\<lambda>i. Rejected ''fetch failed'')
       (\<lambda>p i. Resolved \<lparr>status = 200, body = Some \<lparr>AlchemyPage.error = None,
           tokens = [\<lparr>AlchemyPortfolioToken.tokenAddress = ''0xB2'', tokenBalance = ''0x10'',
                      tokenMetadata = Some \<lparr>AlchemyMetadata.decimals = Some 6,
                                             name = ''USD Coin'', symbol = ''USDC''\<rparr>\<rparr>],
           pageKey = None\<rparr>\<rparr>)
       ''0x1234'' (Some ''zapper-key'') None (Some ''alchemy-key'')
     = (TokensResponse
          [\<lparr>Token.contractAddress = ''0xB2'', symbol = ''USDC'', name = ''USD Coin'',
             balance = ''0x10'', balanceFormatted = ''0.000016''\<rparr>]
          ''alchemy-portfolio'',
        [Zapper, AlchemyPortfolio])"
    by code_simp
  have address: "''0x1234'' \<noteq> []"
    by simp
  have key: "Some ''alchemy-key'' = (if truthy None then None else Some ''alchemy-key'')"
    by (simp add: truthy_def)
  have unset: "\<not> truthy None \<and> \<not> truthy (Some '''')"
    by (simp add: truthy_def)
  have nokeys: "GET rootCollationKey (\<lambda>s. False) (\<lambda>b d. ''0.000016'') (\<lambda>i. Rejected ''fetch failed'')
       (\<lambda>p i. Rejected ''fetch failed'') ''0x1234'' None (Some '''') None
     = (ErrorResponse
          ''No API keys configured. Please set ZAPPER_API_KEY or ALCHEMY_API_KEY'' 500, [])"
    by code_simp
  have nokey: "None = (if truthy (Some '''') then Some '''' else None)"
    by (simp add: truthy_def)
  show ?thesis
    using zapper run unset nokeys
      handler_fallback [OF address key run] handler_fallback [OF address nokey nokeys]
    by (simp add: truthy_Some_nonempty)
qed


section \<open>Properties of the sorted token list\<close>

lemma lex_compare_flip: "lex_compare b a = - lex_compare a b"
  by (induction a b rule: lex_compare.induct) auto

lemma lex_compare_trans:
  "lex_compare a b \<le> 0 \<Longrightarrow> lex_compare b c \<le> 0 \<Longrightarrow> lex_compare a c \<le> 0"
proof (induction a arbitrary: b c)
  case Nil
  then show ?case by (cases c) auto
next
  case (Cons x xs)
  then obtain y ys where b: "b = y # ys" by (cases b) auto
  with Cons.prems obtain z zs where c: "c = z # zs" by (cases c) auto
  show ?case
    using Cons.prems Cons.IH[of ys zs] unfolding b c
    by (auto split: if_splits)
qed

lemma localeCompare_total:
  "localeCompare collationKey a b \<le> 0 \<or> localeCompare collationKey b a \<le> 0"
  using lex_compare_flip[of "collationKey b" "collationKey a"] by (auto simp: localeCompare_def)

lemma localeCompare_trans:
  "localeCompare collationKey a b \<le> 0 \<Longrightarrow> localeCompare collationKey b c \<le> 0
     \<Longrightarrow> localeCompare collationKey a c \<le> 0"
  unfolding localeCompare_def by (rule lex_compare_trans)

lemma priorityCompare_total:
  "priorityCompare collationKey a b \<le> 0 \<or> priorityCompare collationKey b a \<le> 0"
  using localeCompare_total[of collationKey "BurnerToken.symbol a" "BurnerToken.symbol b"]
  by (auto simp: priorityCompare_def)

lemma priorityCompare_trans:
  "priorityCompare collationKey a b \<le> 0 \<Longrightarrow> priorityCompare collationKey b c \<le> 0
     \<Longrightarrow> priorityCompare collationKey a c \<le> 0"
  using localeCompare_trans[of collationKey "BurnerToken.symbol a" "BurnerToken.symbol b"
      "BurnerToken.symbol c"]
  by (auto simp: priorityCompare_def split: if_splits)

lemma priorityCompare_le:
  "priorityCompare collationKey a b \<le> 0 \<longleftrightarrow>
     (priority b \<longrightarrow> priority a) \<and>
     (priority a = priority b \<longrightarrow> localeCompare collationKey (BurnerToken.symbol a) (BurnerToken.symbol b) \<le> 0)"
  by (auto simp: priorityCompare_def)

lemma set_insert_sorted: "set (insert_sorted c x ys) = insert x (set ys)"
  by (induction ys) auto

lemma sorted_insert_sorted:
  assumes total: "\<And>a b. c a b \<le> 0 \<or> c b a \<le> 0"
    and trans: "\<And>a b d. c a b \<le> 0 \<Longrightarrow> c b d \<le> 0 \<Longrightarrow> c a d \<le> 0"
  shows "sorted_wrt (\<lambda>a b. c a b \<le> 0) ys \<Longrightarrow> sorted_wrt (\<lambda>a b. c a b \<le> 0) (insert_sorted c x ys)"
proof (induction ys)
  case Nil
  then show ?case by simp
next
  case (Cons y ys)
  show ?case
  proof (cases "c x y \<le> 0")
    case True
    then have "\<forall>z\<in>set ys. c x z \<le> 0" using Cons.prems trans by auto
    with True Cons.prems show ?thesis by simp
  next
    case False
    then have "c y x \<le> 0" using total[of x y] by simp
    with False Cons show ?thesis by (auto simp: set_insert_sorted)
  qed
qed

lemma sorted_array_sort:
  assumes total: "\<And>a b. c a b \<le> 0 \<or> c b a \<le> 0"
    and trans: "\<And>a b d. c a b \<le> 0 \<Longrightarrow> c b d \<le> 0 \<Longrightarrow> c a d \<le> 0"
  shows "sorted_wrt (\<lambda>a b. c a b \<le> 0) (array_sort c xs)"
proof (induction xs)
  case Nil
  then show ?case by (simp add: array_sort_def)
next
  case (Cons x xs)
  have "array_sort c (x # xs) = insert_sorted c x (array_sort c xs)"
    by (simp add: array_sort_def)
  with Cons show ?case using sorted_insert_sorted[OF total trans] by simp
qed

lemma sorted_priorityCompare:
  "sorted_wrt (\<lambda>a b. (priority b \<longrightarrow> priority a) \<and>
     (priority a = priority b \<longrightarrow> localeCompare collationKey (BurnerToken.symbol a) (BurnerToken.symbol b) \<le> 0))
     (array_sort (priorityCompare collationKey) xs)"
  using sorted_array_sort[of "priorityCompare collationKey" xs,
      OF priorityCompare_total priorityCompare_trans]
  by (simp add: priorityCompare_le)

lemma sorted_sortBySymbol:
  "sorted_wrt (\<lambda>a b. localeCompare collationKey (Token.symbol a) (Token.symbol b) \<le> 0)
     (sortBySymbol collationKey xs)"
  unfolding sortBySymbol_def
  by (rule sorted_array_sort) (use localeCompare_total localeCompare_trans in blast)+


lemma fetchTokenMetadata_priority:
  "fetchTokenMetadata fetch address = Some t \<Longrightarrow>
     BurnerToken.contractAddress t = address
     \<and> (priority t \<longleftrightarrow> toLowerCase address \<in> set BASE_PRIORITY_TOKENS)"
  by (auto simp: fetchTokenMetadata_def priority_def Let_def split: option.splits sum.splits)

lemma withMetadata_priority:
  "t \<in> set (withMetadata fetchMetadata k bs) \<Longrightarrow>
     (priority t \<longleftrightarrow> toLowerCase (BurnerToken.contractAddress t) \<in> set BASE_PRIORITY_TOKENS)"
proof (induction bs arbitrary: k)
  case Nil
  then show ?case by simp
next
  case (Cons b bs)
  show ?case
  proof (cases "fetchTokenMetadata (fetchMetadata k) (TokenBalance.contractAddress b)")
    case None
    with Cons show ?thesis by simp
  next
    case (Some metadata)
    from fetchTokenMetadata_priority[OF Some]
    have "priority (metadata\<lparr>BurnerToken.balance := tokenBalance b\<rparr>) \<longleftrightarrow>
        toLowerCase (BurnerToken.contractAddress (metadata\<lparr>BurnerToken.balance := tokenBalance b\<rparr>))
          \<in> set BASE_PRIORITY_TOKENS"
      by (simp add: priority_def)
    with Some Cons show ?thesis by auto
  qed
qed

lemma fetchAllTokens_try_priority:
  "fetchAllTokens_try collationKey fetchBalances fetchMetadata = Inr sortedTokens \<Longrightarrow> t \<in> set sortedTokens \<Longrightarrow>
     (priority t \<longleftrightarrow> toLowerCase (BurnerToken.contractAddress t) \<in> set BASE_PRIORITY_TOKENS)"
  by (auto simp: fetchAllTokens_try_def set_array_sort Let_def
      split: sum.splits option.splits dest: withMetadata_priority)

text \<open>
  The order within a partition is the order of the host's collation, not the order of
  the codes of the lower-cased characters. Two tokens outside the allow-list with the
  symbols \<^verbatim>\<open>$WIF\<close> and \<^verbatim>\<open>_X\<close>: in the root collation the underscore is before the dollar
  sign, so the scan lists \<^verbatim>\<open>_X\<close> first, while in the case-insensitive lexicographic
  comparison \<^verbatim>\<open>$WIF\<close> (code 36) is before \<^verbatim>\<open>_X\<close> (code 95).
\<close>

theorem sorted_token_list_counterexample:
  "fetchAllTokens_try rootCollationKey
     (\<lambda>i. Resolved \<lparr>status = 200, body = Some \<lparr>BalancesData.error = None, tokenBalances =
        [\<lparr>TokenBalance.contractAddress = ''0xa1'', tokenBalance = ''0x5''\<rparr>,
         \<lparr>TokenBalance.contractAddress = ''0xb2'', tokenBalance = ''0x7''\<rparr>]\<rparr>\<rparr>)
     (\<lambda>k i. Resolved \<lparr>status = 200, body = Some (Some
        \<lparr>TokenMetadata.name = ''Meme'', symbol = (if k = (0::nat) then ''$WIF'' else ''_X''),
          decimals = Some 18, logo = None\<rparr>)\<rparr>)
   = Inr [\<lparr>BurnerToken.contractAddress = ''0xb2'', name = ''Meme'', symbol = ''_X'',
            balance = ''0x7'', decimals = 18, logo = None, isPriority = Some False\<rparr>,
          \<lparr>BurnerToken.contractAddress = ''0xa1'', name = ''Meme'', symbol = ''$WIF'',
            balance = ''0x5'', decimals = 18, logo = None, isPriority = Some False\<rparr>]
   \<and> caseInsensitiveCompare_spec ''_X'' ''$WIF'' = 1
   \<and> localeCompare rootCollationKey ''_X'' ''$WIF'' = - 1"
  by code_simp

text \<open>
  C7. In the list that the client's full scan produces (\<^verbatim>\<open>fetchAllTokens\<close>, which stores
  it as the token list of the component), the priority tokens are the tokens whose
  lower-cased address is in the fixed allow-list (\<^verbatim>\<open>isPriority\<close> true); every priority
  token stands before every token that is not one, and of two tokens of the same
  partition the earlier one has the symbol that \<^verbatim>\<open>localeCompare\<close> puts before or level
  with the other, whatever the collation of the host is. The sorted list has the same
  tokens, each as often, as the merged list: the tokens of the balance scan with a
  balance above zero, each with its metadata. The list of the server route, whose
  tokens have no priority, is ordered by \<^verbatim>\<open>localeCompare\<close> of the symbols alone and has
  the same tokens as the list before the sort.
\<close>

theorem sorted_token_list:
  "(fetchAllTokens_try collationKey fetchBalances fetchMetadata = Inr sortedTokens \<longrightarrow>
      sorted_wrt
        (\<lambda>a b. (priority b \<longrightarrow> priority a)
           \<and> (priority a = priority b \<longrightarrow>
                localeCompare collationKey (BurnerToken.symbol a) (BurnerToken.symbol b) \<le> 0))
        sortedTokens
      \<and> (\<forall>t \<in> set sortedTokens.
             priority t \<longleftrightarrow>
               toLowerCase (BurnerToken.contractAddress t) \<in> set BASE_PRIORITY_TOKENS)
      \<and> (\<exists>response json.
             fst (fetchWithRetry fetchBalances 3 True) = Inr response
             \<and> body response = Some json
             \<and> mset sortedTokens
                 = mset (withMetadata fetchMetadata 0
                     (filter (\<lambda>token. parseInt16_positive (TokenBalance.tokenBalance token))
                        (tokenBalances json))))
      \<and> (truthy address \<and> truthy alchemyApiKey \<longrightarrow>
           BurnerState.tokens
             (fetchAllTokens collationKey fetchBalances fetchMetadata address alchemyApiKey st)
             = sortedTokens))
   \<and> sorted_wrt
        (\<lambda>a b. localeCompare collationKey (Token.symbol a) (Token.symbol b) \<le> 0)
        (sortBySymbol collationKey allTokens)
   \<and> mset (sortBySymbol collationKey allTokens) = mset allTokens"
proof -
  have client: "sorted_wrt
        (\<lambda>a b. (priority b \<longrightarrow> priority a)
           \<and> (priority a = priority b \<longrightarrow>
                localeCompare collationKey (BurnerToken.symbol a) (BurnerToken.symbol b) \<le> 0))
        sortedTokens"
    if "fetchAllTokens_try collationKey fetchBalances fetchMetadata = Inr sortedTokens"
  proof -
    from that obtain unsorted where
      "sortedTokens = array_sort (priorityCompare collationKey) unsorted"
      by (auto simp: fetchAllTokens_try_def Let_def split: sum.splits option.splits)
    then show ?thesis
      using sorted_priorityCompare[of collationKey unsorted] by simp
  qed
  have merged: "(\<exists>response json.
             fst (fetchWithRetry fetchBalances 3 True) = Inr response
             \<and> body response = Some json
             \<and> mset sortedTokens
                 = mset (withMetadata fetchMetadata 0
                     (filter (\<lambda>token. parseInt16_positive (TokenBalance.tokenBalance token))
                        (tokenBalances json))))"
    if "fetchAllTokens_try collationKey fetchBalances fetchMetadata = Inr sortedTokens"
    using that
    by (auto simp: fetchAllTokens_try_def Let_def mset_array_sort
        split: sum.splits option.splits)
  have stored: "BurnerState.tokens
        (fetchAllTokens collationKey fetchBalances fetchMetadata address alchemyApiKey st)
          = sortedTokens"
    if "fetchAllTokens_try collationKey fetchBalances fetchMetadata = Inr sortedTokens"
      "truthy address" "truthy alchemyApiKey"
    using that by (simp add: fetchAllTokens_def)
  have server: "sorted_wrt
        (\<lambda>a b. localeCompare collationKey (Token.symbol a) (Token.symbol b) \<le> 0)
        (sortBySymbol collationKey allTokens)"
    by (rule sorted_sortBySymbol)
  have same: "mset (sortBySymbol collationKey allTokens) = mset allTokens"
    by (simp add: sortBySymbol_def mset_array_sort)
  have allowlist: "\<forall>t \<in> set sortedTokens.
             priority t \<longleftrightarrow>
               toLowerCase (BurnerToken.contractAddress t) \<in> set BASE_PRIORITY_TOKENS"
    if "fetchAllTokens_try collationKey fetchBalances fetchMetadata = Inr sortedTokens"
    using that fetchAllTokens_try_priority by blast
  show ?thesis
    using client allowlist merged stored server same by blast
qed

theorem sorted_token_list_witness:
  "fetchAllTokens_try rootCollationKey
     (\<lambda>i. Resolved \<lparr>status = 200, body = Some \<lparr>BalancesData.error = None, tokenBalances =
        [\<lparr>TokenBalance.contractAddress = ''0xa1'', tokenBalance = ''0x5''\<rparr>,
         \<lparr>TokenBalance.contractAddress = ''0x833589fCD6eDb6E08f4c7C32D4f71b54bdA02913'',
           tokenBalance = ''0x10''\<rparr>,
         \<lparr>TokenBalance.contractAddress = ''0xb2'', tokenBalance = ''0x0''\<rparr>,
         \<lparr>TokenBalance.contractAddress = ''0xc3'', tokenBalance = ''0x9''\<rparr>,
         \<lparr>TokenBalance.contractAddress = ''0x50c5725949A6F0c72E6C4a641F24049A917DB0Cb'',
           tokenBalance = ''0x7''\<rparr>]\<rparr>\<rparr>)
     (\<lambda>k i. Resolved \<lparr>status = 200, body = Some (Some
        \<lparr>TokenMetadata.name = ''Greek'', symbol = (if k = (0::nat) then ''Zeta'' else ''alpha''),
          decimals = Some 18, logo = None\<rparr>)\<rparr>)
   = Inr [\<lparr>BurnerToken.contractAddress = ''0x50c5725949A6F0c72E6C4a641F24049A917DB0Cb'',
            name = ''Dai Stablecoin'', symbol = ''DAI'', balance = ''0x7'', decimals = 18,
            logo = None, isPriority = Some True\<rparr>,
          \<lparr>BurnerToken.contractAddress = ''0x833589fCD6eDb6E08f4c7C32D4f71b54bdA02913'',
            name = ''USD Coin'', symbol = ''USDC'', balance = ''0x10'', decimals = 6,
            logo = None, isPriority = Some True\<rparr>,
          \<lparr>BurnerToken.contractAddress = ''0xc3'', name = ''Greek'', symbol = ''alpha'',
            balance = ''0x9'', decimals = 18, logo = None, isPriority = Some False\<rparr>,
          \<lparr>BurnerToken.contractAddress = ''0xa1'', name = ''Greek'', symbol = ''Zeta'',
            balance = ''0x5'', decimals = 18, logo = None, isPriority = Some False\<rparr>]
   \<and> sorted_wrt
        (\<lambda>a b. (priority b \<longrightarrow> priority a)
           \<and> (priority a = priority b \<longrightarrow>
                localeCompare rootCollationKey (BurnerToken.symbol a) (BurnerToken.symbol b) \<le> 0))
        [\<lparr>BurnerToken.contractAddress = ''0x50c5725949A6F0c72E6C4a641F24049A917DB0Cb'',
            name = ''Dai Stablecoin'', symbol = ''DAI'', balance = ''0x7'', decimals = 18,
            logo = None, isPriority = Some True\<rparr>,
          \<lparr>BurnerToken.contractAddress = ''0x833589fCD6eDb6E08f4c7C32D4f71b54bdA02913'',
            name = ''USD Coin'', symbol = ''USDC'', balance = ''0x10'', decimals = 6,
            logo = None, isPriority = Some True\<rparr>,
          \<lparr>BurnerToken.contractAddress = ''0xc3'', name = ''Greek'', symbol = ''alpha'',
            balance = ''0x9'', decimals = 18, logo = None, isPriority = Some False\<rparr>,
          \<lparr>BurnerToken.contractAddress = ''0xa1'', name = ''Greek'', symbol = ''Zeta'',
            balance = ''0x5'', decimals = 18, logo = None, isPriority = Some False\<rparr>]
   \<and> (\<exists>response json.
        fst (fetchWithRetry
          (\<lambda>i. Resolved \<lparr>status = 200, body = Some \<lparr>BalancesData.error = None, tokenBalances =
        [\<lparr>TokenBalance.contractAddress = ''0xa1'', tokenBalance = ''0x5''\<rparr>,
         \<lparr>TokenBalance.contractAddress = ''0x833589fCD6eDb6E08f4c7C32D4f71b54bdA02913'',
           tokenBalance = ''0x10''\<rparr>,
         \<lparr>TokenBalance.contractAddress = ''0xb2'', tokenBalance = ''0x0''\<rparr>,
         \<lparr>TokenBalance.contractAddress = ''0xc3'', tokenBalance = ''0x9''\<rparr>,
         \<lparr>TokenBalance.contractAddress = ''0x50c5725949A6F0c72E6C4a641F24049A917DB0Cb'',
           tokenBalance = ''0x7''\<rparr>]\<rparr>\<rparr>) 3 True) = Inr response
        \<and> body response = Some json
        \<and> mset [\<lparr>BurnerToken.contractAddress = ''0x50c5725949A6F0c72E6C4a641F24049A917DB0Cb'',
            name = ''Dai Stablecoin'', symbol = ''DAI'', balance = ''0x7'', decimals = 18,
            logo = None, isPriority = Some True\<rparr>,
          \<lparr>BurnerToken.contractAddress = ''0x833589fCD6eDb6E08f4c7C32D4f71b54bdA02913'',
            name = ''USD Coin'', symbol = ''USDC'', balance = ''0x10'', decimals = 6,
            logo = None, isPriority = Some True\<rparr>,
          \<lparr>BurnerToken.contractAddress = ''0xc3'', name = ''Greek'', symbol = ''alpha'',
            balance = ''0x9'', decimals = 18, logo = None, isPriority = Some False\<rparr>,
          \<lparr>BurnerToken.contractAddress = ''0xa1'', name = ''Greek'', symbol = ''Zeta'',
            balance = ''0x5'', decimals = 18, logo = None, isPriority = Some False\<rparr>]
            = mset (withMetadata
                (\<lambda>k i. Resolved \<lparr>status = 200, body = Some (Some
        \<lparr>TokenMetadata.name = ''Greek'', symbol = (if k = (0::nat) then ''Zeta'' else ''alpha''),
          decimals = Some 18, logo = None\<rparr>)\<rparr>) 0
                (filter (\<lambda>token. parseInt16_positive (TokenBalance.tokenBalance token))
                   (tokenBalances json))))
   \<and> sortBySymbol rootCollationKey
         [\<lparr>Token.contractAddress = ''0xa1'', symbol = ''USDC'', name = ''Coin'',
            balance = ''16'', balanceFormatted = ''0.00001''\<rparr>,
          \<lparr>Token.contractAddress = ''0xb2'', symbol = ''$WIF'', name = ''Coin'',
            balance = ''5'', balanceFormatted = ''0.00001''\<rparr>,
          \<lparr>Token.contractAddress = ''0xc3'', symbol = ''usdc'', name = ''Coin'',
            balance = ''7'', balanceFormatted = ''0.00001''\<rparr>,
          \<lparr>Token.contractAddress = ''0xd4'', symbol = ''_X'', name = ''Coin'',
            balance = ''9'', balanceFormatted = ''0.00001''\<rparr>]
     = [\<lparr>Token.contractAddress = ''0xd4'', symbol = ''_X'', name = ''Coin'',
            balance = ''9'', balanceFormatted = ''0.00001''\<rparr>,
          \<lparr>Token.contractAddress = ''0xb2'', symbol = ''$WIF'', name = ''Coin'',
            balance = ''5'', balanceFormatted = ''0.00001''\<rparr>,
          \<lparr>Token.contractAddress = ''0xc3'', symbol = ''usdc'', name = ''Coin'',
            balance = ''7'', balanceFormatted = ''0.00001''\<rparr>,
          \<lparr>Token.contractAddress = ''0xa1'', symbol = ''USDC'', name = ''Coin'',
            balance = ''16'', balanceFormatted = ''0.00001''\<rparr>]
   \<and> sorted_wrt
        (\<lambda>a b. localeCompare rootCollationKey (Token.symbol a) (Token.symbol b) \<le> 0)
        (sortBySymbol rootCollationKey
           [\<lparr>Token.contractAddress = ''0xa1'', symbol = ''USDC'', name = ''Coin'',
            balance = ''16'', balanceFormatted = ''0.00001''\<rparr>,
          \<lparr>Token.contractAddress = ''0xb2'', symbol = ''$WIF'', name = ''Coin'',
            balance = ''5'', balanceFormatted = ''0.00001''\<rparr>,
          \<lparr>Token.contractAddress = ''0xc3'', symbol = ''usdc'', name = ''Coin'',
            balance = ''7'', balanceFormatted = ''0.00001''\<rparr>,
          \<lparr>Token.contractAddress = ''0xd4'', symbol = ''_X'', name = ''Coin'',
            balance = ''9'', balanceFormatted = ''0.00001''\<rparr>])
   \<and> mset (sortBySymbol rootCollationKey
           [\<lparr>Token.contractAddress = ''0xa1'', symbol = ''USDC'', name = ''Coin'',
            balance = ''16'', balanceFormatted = ''0.00001''\<rparr>,
          \<lparr>Token.contractAddress = ''0xb2'', symbol = ''$WIF'', name = ''Coin'',
            balance = ''5'', balanceFormatted = ''0.00001''\<rparr>,
          \<lparr>Token.contractAddress = ''0xc3'', symbol = ''usdc'', name = ''Coin'',
            balance = ''7'', balanceFormatted = ''0.00001''\<rparr>,
          \<lparr>Token.contractAddress = ''0xd4'', symbol = ''_X'', name = ''Coin'',
            balance = ''9'', balanceFormatted = ''0.00001''\<rparr>])
       = mset [\<lparr>Token.contractAddress = ''0xa1'', symbol = ''USDC'', name = ''Coin'',
            balance = ''16'', balanceFormatted = ''0.00001''\<rparr>,
          \<lparr>Token.contractAddress = ''0xb2'', symbol = ''$WIF'', name = ''Coin'',
            balance = ''5'', balanceFormatted = ''0.00001''\<rparr>,
          \<lparr>Token.contractAddress = ''0xc3'', symbol = ''usdc'', name = ''Coin'',
            balance = ''7'', balanceFormatted = ''0.00001''\<rparr>,
          \<lparr>Token.contractAddress = ''0xd4'', symbol = ''_X'', name = ''Coin'',
            balance = ''9'', balanceFormatted = ''0.00001''\<rparr>]"
proof -
  have run: "fetchAllTokens_try rootCollationKey
     (\<lambda>i. Resolved \<lparr>status = 200, body = Some \<lparr>BalancesData.error = None, tokenBalances =
        [\<lparr>TokenBalance.contractAddress = ''0xa1'', tokenBalance = ''0x5''\<rparr>,
         \<lparr>TokenBalance.contractAddress = ''0x833589fCD6eDb6E08f4c7C32D4f71b54bdA02913'',
           tokenBalance = ''0x10''\<rparr>,
         \<lparr>TokenBalance.contractAddress = ''0xb2'', tokenBalance = ''0x0''\<rparr>,
         \<lparr>TokenBalance.contractAddress = ''0xc3'', tokenBalance = ''0x9''\<rparr>,
         \<lparr>TokenBalance.contractAddress = ''0x50c5725949A6F0c72E6C4a641F24049A917DB0Cb'',
           tokenBalance = ''0x7''\<rparr>]\<rparr>\<rparr>)
     (\<lambda>k i. Resolved \<lparr>status = 200, body = Some (Some
        \<lparr>TokenMetadata.name = ''Greek'', symbol = (if k = (0::nat) then ''Zeta'' else ''alpha''),
          decimals = Some 18, logo = None\<rparr>)\<rparr>)
   = Inr [\<lparr>BurnerToken.contractAddress = ''0x50c5725949A6F0c72E6C4a641F24049A917DB0Cb'',
            name = ''Dai Stablecoin'', symbol = ''DAI'', balance = ''0x7'', decimals = 18,
            logo = None, isPriority = Some True\<rparr>,
          \<lparr>BurnerToken.contractAddress = ''0x833589fCD6eDb6E08f4c7C32D4f71b54bdA02913'',
            name = ''USD Coin'', symbol = ''USDC'', balance = ''0x10'', decimals = 6,
            logo = None, isPriority = Some True\<rparr>,
          \<lparr>BurnerToken.contractAddress = ''0xc3'', name = ''Greek'', symbol = ''alpha'',
            balance = ''0x9'', decimals = 18, logo = None, isPriority = Some False\<rparr>,
          \<lparr>BurnerToken.contractAddress = ''0xa1'', name = ''Greek'', symbol = ''Zeta'',
            balance = ''0x5'', decimals = 18, logo = None, isPriority = Some False\<rparr>]"
    by code_simp
  have server: "sortBySymbol rootCollationKey
         [\<lparr>Token.contractAddress = ''0xa1'', symbol = ''USDC'', name = ''Coin'',
            balance = ''16'', balanceFormatted = ''0.00001''\<rparr>,
          \<lparr>Token.contractAddress = ''0xb2'', symbol = ''$WIF'', name = ''Coin'',
            balance = ''5'', balanceFormatted = ''0.00001''\<rparr>,
          \<lparr>Token.contractAddress = ''0xc3'', symbol = ''usdc'', name = ''Coin'',
            balance = ''7'', balanceFormatted = ''0.00001''\<rparr>,
          \<lparr>Token.contractAddress = ''0xd4'', symbol = ''_X'', name = ''Coin'',
            balance = ''9'', balanceFormatted = ''0.00001''\<rparr>]
     = [\<lparr>Token.contractAddress = ''0xd4'', symbol = ''_X'', name = ''Coin'',
            balance = ''9'', balanceFormatted = ''0.00001''\<rparr>,
          \<lparr>Token.contractAddress = ''0xb2'', symbol = ''$WIF'', name = ''Coin'',
            balance = ''5'', balanceFormatted = ''0.00001''\<rparr>,
          \<lparr>Token.contractAddress = ''0xc3'', symbol = ''usdc'', name = ''Coin'',
            balance = ''7'', balanceFormatted = ''0.00001''\<rparr>,
          \<lparr>Token.contractAddress = ''0xa1'', symbol = ''USDC'', name = ''Coin'',
            balance = ''16'', balanceFormatted = ''0.00001''\<rparr>]"
    by code_simp
  note client = sorted_token_list [where collationKey = rootCollationKey
      and fetchBalances = "(\<lambda>i. Resolved \<lparr>status = 200, body = Some \<lparr>BalancesData.error = None, tokenBalances =
        [\<lparr>TokenBalance.contractAddress = ''0xa1'', tokenBalance = ''0x5''\<rparr>,
         \<lparr>TokenBalance.contractAddress = ''0x833589fCD6eDb6E08f4c7C32D4f71b54bdA02913'',
           tokenBalance = ''0x10''\<rparr>,
         \<lparr>TokenBalance.contractAddress = ''0xb2'', tokenBalance = ''0x0''\<rparr>,
         \<lparr>TokenBalance.contractAddress = ''0xc3'', tokenBalance = ''0x9''\<rparr>,
         \<lparr>TokenBalance.contractAddress = ''0x50c5725949A6F0c72E6C4a641F24049A917DB0Cb'',
           tokenBalance = ''0x7''\<rparr>]\<rparr>\<rparr>)"
      and fetchMetadata = "(\<lambda>k i. Resolved \<lparr>status = 200, body = Some (Some
        \<lparr>TokenMetadata.name = ''Greek'', symbol = (if k = (0::nat) then ''Zeta'' else ''alpha''),
          decimals = Some 18, logo = None\<rparr>)\<rparr>)"
      and sortedTokens = "[\<lparr>BurnerToken.contractAddress = ''0x50c5725949A6F0c72E6C4a641F24049A917DB0Cb'',
            name = ''Dai Stablecoin'', symbol = ''DAI'', balance = ''0x7'', decimals = 18,
            logo = None, isPriority = Some True\<rparr>,
          \<lparr>BurnerToken.contractAddress = ''0x833589fCD6eDb6E08f4c7C32D4f71b54bdA02913'',
            name = ''USD Coin'', symbol = ''USDC'', balance = ''0x10'', decimals = 6,
            logo = None, isPriority = Some True\<rparr>,
          \<lparr>BurnerToken.contractAddress = ''0xc3'', name = ''Greek'', symbol = ''alpha'',
            balance = ''0x9'', decimals = 18, logo = None, isPriority = Some False\<rparr>,
          \<lparr>BurnerToken.contractAddress = ''0xa1'', name = ''Greek'', symbol = ''Zeta'',
            balance = ''0x5'', decimals = 18, logo = None, isPriority = Some False\<rparr>]",
      THEN conjunct1, THEN mp, OF run]
  note route = sorted_token_list [where collationKey = rootCollationKey
      and allTokens = "[\<lparr>Token.contractAddress = ''0xa1'', symbol = ''USDC'', name = ''Coin'',
            balance = ''16'', balanceFormatted = ''0.00001''\<rparr>,
          \<lparr>Token.contractAddress = ''0xb2'', symbol = ''$WIF'', name = ''Coin'',
            balance = ''5'', balanceFormatted = ''0.00001''\<rparr>,
          \<lparr>Token.contractAddress = ''0xc3'', symbol = ''usdc'', name = ''Coin'',
            balance = ''7'', balanceFormatted = ''0.00001''\<rparr>,
          \<lparr>Token.contractAddress = ''0xd4'', symbol = ''_X'', name = ''Coin'',
            balance = ''9'', balanceFormatted = ''0.00001''\<rparr>]",
      THEN conjunct2]
  show ?thesis
    using run server client [THEN conjunct1]
      client [THEN conjunct2, THEN conjunct2, THEN conjunct1] route
    by blast
qed

end
